theory Spec2Isabelle
  imports Complex_Main
begin

section \<open>The IFC viewer: a shallow embedding of \<^verbatim>\<open>src/App.tsx\<close>\<close>

text \<open>
  The source file holds two revisions of the same React component. The first revision
  (lines 1 to 215) is embedded with the prefix \<open>v1_\<close>; the second revision (lines 216 to
  1108) keeps the source's names.

  The component orchestrates a third-party viewer library. The library is not part of the
  program, so what it answers is an input of every handler: a record \<open>env\<close> of responses.
  An awaited library promise either rejects or resolves (\<open>promise\<close>); a handler whose
  promise rejects because an exception escaped it ends in \<open>Err\<close>, with the state it had
  reached. Library calls that the source does not await are synchronous commands: they are
  appended to the history \<open>calls\<close>, and where the program later reads the library state
  they change (the clipper's planes, the picking list) the change is written out.

  React state is read from the render the handler closes over and written through its
  setter; references (\<open>useRef\<close>) are read and written in place. A handler runs here from
  its first statement to its last without another handler in between.
\<close>

subsection \<open>Values exchanged with the library\<close>

datatype 'a promise = Rejected | Resolved 'a

text \<open>
  The IFC class codes imported from \<^verbatim>\<open>web-ifc\<close>. The source passes them as numbers; the
  numerals themselves are not in the source, so each imported name is a constructor and
  every other code is \<open>OtherType n\<close>.
\<close>

datatype ifc_type =
    IFCBEAM | IFCBUILDING | IFCBUILDINGSTOREY | IFCCOLUMN | IFCCOVERING | IFCCURTAINWALL
  | IFCDISTRIBUTIONELEMENT | IFCDOOR | IFCFURNISHINGELEMENT | IFCMEMBER | IFCPRODUCT
  | IFCPLATE | IFCRAILING | IFCROOF | IFCSITE | IFCSLAB | IFCSPACE | IFCSTAIR | IFCWALL
  | IFCWALLSTANDARDCASE | IFCWINDOW | OtherType nat

text \<open>
  \<open>getAllItemsOfType\<close> answers with an array of \<open>any\<close>: a number, an object that may carry
  a numeric \<open>expressID\<close>, or \<open>null\<close>/\<open>undefined\<close>.
\<close>

datatype ifc_item = ItemNumber nat | ItemObject "nat option" | ItemNullish

fun item_id :: "ifc_item \<Rightarrow> nat option" where
  "item_id (ItemNumber n) = Some n"
| "item_id (ItemObject e) = e"
| "item_id ItemNullish = None"

definition normalizeIds :: "ifc_item list \<Rightarrow> nat list" where
  "normalizeIds items = map the (filter (\<lambda>i. i \<noteq> None) (map item_id items))"

definition FILTERS :: "(string \<times> ifc_type) list" where
  "FILTERS =
    [(''Walls'', IFCWALL), (''Slabs'', IFCSLAB), (''Columns'', IFCCOLUMN),
     (''Beams'', IFCBEAM), (''Doors'', IFCDOOR), (''Windows'', IFCWINDOW)]"

definition IFC_CLASS_LIST :: "(string \<times> ifc_type) list" where
  "IFC_CLASS_LIST =
    [(''Walls'', IFCWALL), (''Wall (Std)'', IFCWALLSTANDARDCASE), (''Slabs'', IFCSLAB),
     (''Columns'', IFCCOLUMN), (''Beams'', IFCBEAM), (''Doors'', IFCDOOR),
     (''Windows'', IFCWINDOW), (''Roofs'', IFCROOF), (''Stairs'', IFCSTAIR),
     (''Railings'', IFCRAILING), (''Members'', IFCMEMBER), (''Plates'', IFCPLATE),
     (''Curtain Walls'', IFCCURTAINWALL), (''Coverings'', IFCCOVERING),
     (''Furnishing'', IFCFURNISHINGELEMENT), (''Distribution'', IFCDISTRIBUTIONELEMENT),
     (''Spaces'', IFCSPACE), (''Storeys'', IFCBUILDINGSTOREY), (''Buildings'', IFCBUILDING),
     (''Sites'', IFCSITE)]"

text \<open>
  The property object of an element: the fields of the item itself and the three lists the
  fallback of \<open>fetchProperties\<close> attaches. Their contents are opaque to the program.
\<close>

record props =
  p_fields :: "(string \<times> string) list"
  p_psets :: "string list"
  p_mats :: "string list"
  p_type :: "string list"

subsection \<open>Materials, meshes and planes\<close>

text \<open>
  Materials are shared objects: a mesh holds references, and the store \<open>materials\<close> of the
  state maps a reference to the object. \<open>HighlightMaterial\<close> is the one material the program
  creates itself; the others belong to the library. A field the source guards with \<open>??\<close> or
  \<open>in\<close> may be absent. Opacities are only stored and copied, never computed with.
\<close>

datatype mat_ref = LibMaterial nat | HighlightMaterial

datatype tex_ref = PlaneGridTexture

record material =
  opacity :: "real option"
  transparent :: "bool option"
  depthWrite :: "bool option"
  color :: "nat option"
  mat_map :: "tex_ref option"
  needsUpdate :: bool
  clippingPlanes :: "nat list option"

text \<open>The \<open>material\<close> property of a mesh: absent, one material, or an array.\<close>

datatype mesh_material = NoMaterial | OneMaterial mat_ref | ManyMaterials "mat_ref list"

text \<open>
  \<open>Array.isArray(mesh.material) ? mesh.material : [mesh.material]\<close>, after the early
  return on a mesh without material.
\<close>

fun material_list :: "mesh_material \<Rightarrow> mat_ref list" where
  "material_list NoMaterial = []"
| "material_list (OneMaterial r) = [r]"
| "material_list (ManyMaterials rs) = rs"

record cached =
  c_opacity :: real
  c_transparent :: bool
  c_depthWrite :: bool

record plane =
  planeMesh :: mesh_material

record ifc_model =
  m_modelID :: nat
  m_visible :: bool
  m_material :: mesh_material
  m_geometry :: bool

record subset =
  s_modelID :: nat
  s_ids :: "nat list"
  s_customID :: string
  s_material :: mesh_material

datatype mesh = ModelMesh ifc_model | SubsetMesh subset

fun mesh_material_of :: "mesh \<Rightarrow> mesh_material" where
  "mesh_material_of (ModelMesh m) = m_material m"
| "mesh_material_of (SubsetMesh u) = s_material u"

text \<open>Entries of \<open>context.items.pickableIfcModels\<close>, compared by identity.\<close>

datatype pickable = PickModel nat | PickSubset nat string

record texture =
  repeat_x :: real
  repeat_y :: real

record viewer =
  clipper_active :: bool
  clipper_edgesActive :: bool
  clipper_planes :: "plane list"
  clipper_planeSize :: real
  ifcModels :: "ifc_model list"
  pickableIfcModels :: "pickable list"
  contextClippingPlanes :: "nat list"

subsection \<open>Histories\<close>

datatype lib_call =
    DeleteAllPlanes | CreatePlane | PickIfcItem | CastRayIfc | UnpickIfcItems
  | UnPrepickIfcItems | PrePickIfcItem
  | RemoveSubset nat "mat_ref option" string
  | CreateSubset nat "nat list" "mat_ref option" string
  | RenderShadow nat | ComputeBounds | SceneAdd nat bool | Recenter | ScheduleFitToFrame
  | HideItems nat "ifc_item list" | ShowItems nat "ifc_item list"

datatype url_event = CreateObjectURL string | RevokeObjectURL string

record class_count =
  cc_name :: string
  cc_type :: ifc_type
  cc_count :: nat

record context_menu =
  cm_x :: real
  cm_y :: real
  cm_visible :: bool
  cm_hasSelection :: bool

subsection \<open>The state of the second revision\<close>

text \<open>
  \<open>viewerRef\<close> tells whether \<open>viewerRef.current\<close> holds the viewer object; the object itself
  is \<open>viewer\<close>. \<open>statusLog\<close>, \<open>urlLog\<close>, \<open>calls\<close> and \<open>console\<close> are histories: the strings
  passed to \<open>setStatus\<close>, the object URLs created and revoked, the library commands issued
  and the console messages, each in order.
\<close>

record app =
  viewerRef :: bool
  viewer :: viewer
  modelID :: "nat option"
  status :: string
  properties :: "props option"
  clipEnabled :: bool
  placingPlane :: bool
  placingPlaneRef :: bool
  planeGridRef :: "texture option"
  classCounts :: "class_count list"
  selectedClassType :: "ifc_type option"
  contextMenu :: context_menu
  selectedItemRef :: "(nat \<times> nat) option"
  highlightSubsetRef :: "subset option"
  highlightMaterialRef :: "mat_ref option"
  transparencyCacheRef :: "mat_ref \<rightharpoonup> cached"
  hiddenIdsRef :: "nat set"
  visibleSubsetRef :: "subset option"
  allProductIdsRef :: "nat list option"
  typeCacheRef :: "ifc_type \<rightharpoonup> nat list"
  materials :: "mat_ref \<Rightarrow> material"
  statusLog :: "string list"
  urlLog :: "url_event list"
  calls :: "lib_call list"
  console :: "string list"

text \<open>
  How a run of an asynchronous function ends: \<open>Ok v s\<close> when its promise resolves with
  \<open>v\<close>, \<open>Err s\<close> when an exception escapes it; \<open>s\<close> is the state reached.
\<close>

datatype ('a, 's) outcome = Ok 'a 's | Err 's

fun escaped :: "('a, 's) outcome \<Rightarrow> bool" where
  "escaped (Err s) = True"
| "escaped (Ok v s) = False"

fun final :: "('a, 's) outcome \<Rightarrow> 's" where
  "final (Err s) = s"
| "final (Ok v s) = s"

record ifc_file =
  file_name :: string

record intersect =
  i_modelID :: nat
  i_expressId :: "nat option"

text \<open>
  The answers of the library and of the browser during one run of a handler. A function of
  the call's arguments answers every call with these arguments alike. \<open>e_createPlane\<close> is
  the list of planes a call of \<open>clipper.createPlane()\<close> appends to \<open>clipper.planes\<close>;
  \<open>e_createSubset\<close> is the material of the mesh \<open>createSubset\<close> returns, or \<open>None\<close> when it
  returns nothing; \<open>e_castRayIfc\<close> is the intersection found, with the express id that
  \<open>getExpressId\<close> reads from it; \<open>e_recenter\<close> is the test
  \<open>center.length() > 10000 || maxSize > 100000\<close> on the bounding box of the loaded model
  and \<open>e_planeSize\<close> the value of \<open>Math.max(size.x, size.y, size.z, 5)\<close>;
  \<open>e_stringify\<close> is \<open>JSON.stringify(props, null, 2)\<close>.
\<close>

record env =
  e_objectURL :: string
  e_loadIfcUrl :: "string \<Rightarrow> ifc_model option promise"
  e_getAllItemsOfType :: "nat \<Rightarrow> ifc_type \<Rightarrow> bool \<Rightarrow> ifc_item list promise"
  e_pickIfcItem :: "(nat \<times> nat) option promise"
  e_castRayIfc :: "intersect option"
  e_getProperties :: "nat \<Rightarrow> nat \<Rightarrow> bool \<Rightarrow> bool \<Rightarrow> props option promise"
  e_getItemProperties :: "nat \<Rightarrow> nat \<Rightarrow> bool \<Rightarrow> (string \<times> string) list option promise"
  e_getPropertySets :: "nat \<Rightarrow> nat \<Rightarrow> bool \<Rightarrow> string list promise"
  e_getMaterialsProperties :: "nat \<Rightarrow> nat \<Rightarrow> bool \<Rightarrow> string list promise"
  e_getTypeProperties :: "nat \<Rightarrow> nat \<Rightarrow> bool \<Rightarrow> string list promise"
  e_createPlane :: "plane list"
  e_createSubset :: "nat \<Rightarrow> nat list \<Rightarrow> mat_ref option \<Rightarrow> string \<Rightarrow> mesh_material option"
  e_recenter :: bool
  e_planeSize :: real
  e_stringify :: "props option \<Rightarrow> string"

text \<open>\<open>Promise.all\<close>: rejected as soon as one of the promises is.\<close>

fun promise_all :: "'a promise list \<Rightarrow> 'a list promise" where
  "promise_all [] = Resolved []"
| "promise_all (p # ps) =
    (case p of
       Rejected \<Rightarrow> Rejected
     | Resolved x \<Rightarrow>
         (case promise_all ps of Rejected \<Rightarrow> Rejected | Resolved xs \<Rightarrow> Resolved (x # xs)))"

definition call :: "lib_call \<Rightarrow> app \<Rightarrow> app" where
  "call c s = s\<lparr>calls := calls s @ [c]\<rparr>"

definition setStatus :: "string \<Rightarrow> app \<Rightarrow> app" where
  "setStatus x s = s\<lparr>status := x, statusLog := statusLog s @ [x]\<rparr>"

definition console_log :: "string \<Rightarrow> app \<Rightarrow> app" where
  "console_log x s = s\<lparr>console := console s @ [x]\<rparr>"

subsection \<open>Fading and restoring a mesh\<close>

text \<open>
  \<open>setMeshTransparency\<close> and \<open>restoreMeshTransparency\<close> loop over the materials of a mesh; a
  mesh without material has an empty loop (the early return). \<open>first_seen\<close> is the cache
  entry written for a material seen for the first time, with the source's \<open>??\<close> defaults;
  \<open>faded\<close> is the three assignments that follow; \<open>fade_material\<close> is one turn of the loop.
\<close>

definition first_seen :: "material \<Rightarrow> cached" where
  "first_seen m =
    \<lparr>c_opacity = (case opacity m of None \<Rightarrow> 1 | Some x \<Rightarrow> x),
     c_transparent = (case transparent m of None \<Rightarrow> False | Some b \<Rightarrow> b),
     c_depthWrite = (case depthWrite m of None \<Rightarrow> True | Some b \<Rightarrow> b)\<rparr>"

definition faded :: "real \<Rightarrow> material \<Rightarrow> material" where
  "faded op m = m\<lparr>transparent := Some True, opacity := Some op, depthWrite := Some False\<rparr>"

definition fade_material :: "real \<Rightarrow> mat_ref \<Rightarrow> app \<Rightarrow> app" where
  "fade_material op r s =
    (let m = materials s r;
         cache = (if transparencyCacheRef s r = None
                  then (transparencyCacheRef s)(r \<mapsto> first_seen m)
                  else transparencyCacheRef s)
     in s\<lparr>transparencyCacheRef := cache, materials := (materials s)(r := faded op m)\<rparr>)"

definition setMeshTransparency :: "mesh \<Rightarrow> real \<Rightarrow> app \<Rightarrow> app" where
  "setMeshTransparency msh op s = fold (fade_material op) (material_list (mesh_material_of msh)) s"

text \<open>
  \<open>unfaded\<close> writes a cache entry back; \<open>unfade_material\<close> is one turn of the loop of
  \<open>restoreMeshTransparency\<close>, which skips a material the cache does not know.
\<close>

definition unfaded :: "cached \<Rightarrow> material \<Rightarrow> material" where
  "unfaded c m = m\<lparr>opacity := Some (c_opacity c), transparent := Some (c_transparent c),
                   depthWrite := Some (c_depthWrite c)\<rparr>"

definition unfade_material :: "mat_ref \<Rightarrow> app \<Rightarrow> app" where
  "unfade_material r s =
    (case transparencyCacheRef s r of
       None \<Rightarrow> s
     | Some c \<Rightarrow> s\<lparr>materials := (materials s)(r := unfaded c (materials s r))\<rparr>)"

definition restoreMeshTransparency :: "mesh \<Rightarrow> app \<Rightarrow> app" where
  "restoreMeshTransparency msh s = fold unfade_material (material_list (mesh_material_of msh)) s"

subsection \<open>Identifier lists\<close>




definition getTypeIds :: "env \<Rightarrow> nat \<Rightarrow> ifc_type \<Rightarrow> app \<Rightarrow> (nat list, app) outcome" where
  "getTypeIds e currentModelId t s =
    (case typeCacheRef s t of
       Some cached \<Rightarrow> Ok cached s
     | None \<Rightarrow>
         (case e_getAllItemsOfType e currentModelId t False of
            Rejected \<Rightarrow> Err s
          | Resolved items \<Rightarrow>
              (let ids = normalizeIds items
               in Ok ids (s\<lparr>typeCacheRef := (typeCacheRef s)(t \<mapsto> ids)\<rparr>))))"

subsection \<open>Reading the properties of an element\<close>

text \<open>
  \<open>fetchProperties\<close>: the first \<open>try\<close> returns what \<open>getProperties\<close> resolves with when
  that is truthy; a rejection is logged and the second \<open>try\<close> runs, whose three inner
  lookups each fall back to the empty list.
\<close>

definition or_empty :: "string \<Rightarrow> string list promise \<Rightarrow> app \<Rightarrow> string list \<times> app" where
  "or_empty msg p s = (case p of Rejected \<Rightarrow> ([], console_log msg s) | Resolved xs \<Rightarrow> (xs, s))"

definition fetchProperties_fallback :: "env \<Rightarrow> nat \<Rightarrow> nat \<Rightarrow> app \<Rightarrow> (props option, app) outcome"
  where
  "fetchProperties_fallback e currentModelId expressId s =
    (case e_getItemProperties e currentModelId expressId True of
       Rejected \<Rightarrow> Ok None (console_log ''Failed to read fallback IFC properties'' s)
     | Resolved item \<Rightarrow>
         (let (psets, s1) = or_empty ''Failed to read IFC property sets''
                              (e_getPropertySets e currentModelId expressId True) s;
              (mats, s2) = or_empty ''Failed to read IFC materials''
                              (e_getMaterialsProperties e currentModelId expressId True) s1;
              (tp, s3) = or_empty ''Failed to read IFC type properties''
                              (e_getTypeProperties e currentModelId expressId True) s2
          in Ok (Some \<lparr>p_fields = (case item of None \<Rightarrow> [] | Some fs \<Rightarrow> fs),
                         p_psets = psets, p_mats = mats, p_type = tp\<rparr>) s3))"

definition fetchProperties :: "env \<Rightarrow> nat \<Rightarrow> nat \<Rightarrow> app \<Rightarrow> (props option, app) outcome" where
  "fetchProperties e currentModelId expressId s =
    (case e_getProperties e currentModelId expressId True True of
       Rejected \<Rightarrow>
         fetchProperties_fallback e currentModelId expressId
           (console_log ''Failed to read IFC properties'' s)
     | Resolved None \<Rightarrow> fetchProperties_fallback e currentModelId expressId s
     | Resolved (Some p) \<Rightarrow> Ok (Some p) s)"

subsection \<open>Class counts\<close>

text \<open>
  \<open>updateClassCounts\<close>: one count per entry of \<open>IFC_CLASS_LIST\<close>, the zero counts filtered
  out, then \<open>Array.prototype.sort\<close> with the comparator \<open>b.count - a.count\<close>, a stable sort
  by descending count.
\<close>

definition count_entry :: "env \<Rightarrow> nat \<Rightarrow> string \<times> ifc_type \<Rightarrow> class_count promise" where
  "count_entry e currentModelId entry =
    (case e_getAllItemsOfType e currentModelId (snd entry) False of
       Rejected \<Rightarrow> Rejected
     | Resolved items \<Rightarrow>
         Resolved \<lparr>cc_name = fst entry, cc_type = snd entry,
                   cc_count = length (normalizeIds items)\<rparr>)"

definition updateClassCounts :: "env \<Rightarrow> nat \<Rightarrow> app \<Rightarrow> (unit, app) outcome" where
  "updateClassCounts e currentModelId s =
    (case promise_all (map (count_entry e currentModelId) IFC_CLASS_LIST) of
       Rejected \<Rightarrow> Err s
     | Resolved results \<Rightarrow>
         (let filtered = filter (\<lambda>item. cc_count item > 0) results
          in Ok () (s\<lparr>classCounts := sort_key (\<lambda>item. - int (cc_count item)) filtered\<rparr>)))"

subsection \<open>The visible subset\<close>

fun set_visible :: "nat \<Rightarrow> bool \<Rightarrow> ifc_model list \<Rightarrow> ifc_model list" where
  "set_visible currentModelId b [] = []"
| "set_visible currentModelId b (m # ms) =
    (if m_modelID m = currentModelId then m\<lparr>m_visible := b\<rparr> # ms
     else m # set_visible currentModelId b ms)"


definition hide_original :: "nat \<Rightarrow> app \<Rightarrow> app" where
  "hide_original currentModelId s =
    s\<lparr>viewer := (viewer s)
         \<lparr>ifcModels := set_visible currentModelId False (ifcModels (viewer s))\<rparr>\<rparr>"




subsection \<open>Class highlight\<close>

definition getDisplayMesh :: "nat \<Rightarrow> app \<Rightarrow> mesh option" where
  "getDisplayMesh currentModelId s =
    (case visibleSubsetRef s of
       Some u \<Rightarrow> Some (SubsetMesh u)
     | None \<Rightarrow>
         map_option ModelMesh
           (find (\<lambda>m. m_modelID m = currentModelId) (ifcModels (viewer s))))"

definition clearClassHighlight :: "nat \<Rightarrow> app \<Rightarrow> app" where
  "clearClassHighlight currentModelId s =
    (let s1 = (if highlightSubsetRef s \<noteq> None
               then (call (RemoveSubset currentModelId (highlightMaterialRef s)
                             ''class-highlight'') s)
                    \<lparr>highlightSubsetRef := None\<rparr>
               else s);
         s2 = (case getDisplayMesh currentModelId s1 of
                 None \<Rightarrow> s1
               | Some target \<Rightarrow> restoreMeshTransparency target s1)
     in s2\<lparr>selectedClassType := None\<rparr>)"

text \<open>
  \<open>new MeshBasicMaterial({color: 0x2f66c7, transparent: true, opacity: 0.95})\<close>; the fields
  the call does not name have the defaults of the material class.
\<close>

definition new_highlight_material :: material where
  "new_highlight_material =
    \<lparr>opacity = Some 0.95, transparent = Some True, depthWrite = Some True,
     color = Some 0x2f66c7, mat_map = None, needsUpdate = False, clippingPlanes = None\<rparr>"

definition ensure_highlight_material :: "app \<Rightarrow> app" where
  "ensure_highlight_material s =
    (if highlightMaterialRef s = None
     then s\<lparr>highlightMaterialRef := Some HighlightMaterial,
            materials := (materials s)(HighlightMaterial := new_highlight_material)\<rparr>
     else s)"

text \<open>
  The part of \<open>applyClassHighlight\<close> after the early return on a class without
  elements: the highlight material, the subset, the fading of the display mesh.
\<close>

definition highlight_body :: "env \<Rightarrow> nat \<Rightarrow> ifc_type \<Rightarrow> nat list \<Rightarrow> app \<Rightarrow> app" where
  "highlight_body e currentModelId t ids s2 =
    (let s3 = ensure_highlight_material s2;
         r = (case highlightMaterialRef s3 of None \<Rightarrow> HighlightMaterial | Some r \<Rightarrow> r);
         s4 = s3\<lparr>materials := (materials s3)
                    (r := (materials s3 r)
                       \<lparr>clippingPlanes := Some (contextClippingPlanes (viewer s3))\<rparr>)\<rparr>;
         s5 = call (CreateSubset currentModelId ids (Some r) ''class-highlight'') s4;
         s6 = (case e_createSubset e currentModelId ids (Some r) ''class-highlight'' of
                 None \<Rightarrow> s5
               | Some mm \<Rightarrow>
                   s5\<lparr>highlightSubsetRef :=
                        Some \<lparr>s_modelID = currentModelId, s_ids = ids,
                              s_customID = ''class-highlight'', s_material = mm\<rparr>\<rparr>);
         s7 = (case getDisplayMesh currentModelId s6 of
                 None \<Rightarrow> s6
               | Some target \<Rightarrow> setMeshTransparency target 0.2 s6)
     in s7\<lparr>selectedClassType := Some t\<rparr>)"

definition applyClassHighlight :: "env \<Rightarrow> nat \<Rightarrow> ifc_type \<Rightarrow> app \<Rightarrow> app" where
  "applyClassHighlight e currentModelId t s =
    (let (ids, s1) = (case getTypeIds e currentModelId t s of
                        Err s' \<Rightarrow> ([], console_log ''Failed to resolve IFC class IDs'' s')
                      | Ok ids s' \<Rightarrow> (ids, s'));
         s2 = clearClassHighlight currentModelId s1
     in if ids = [] then s2 else highlight_body e currentModelId t ids s2)"

definition handleHighlightClass :: "env \<Rightarrow> ifc_type \<Rightarrow> app \<Rightarrow> (unit, app) outcome" where
  "handleHighlightClass e t s =
    (if \<not> viewerRef s then Ok () s
     else
       (case modelID s of
          None \<Rightarrow> Ok () s
        | Some mid \<Rightarrow>
            if selectedClassType s = Some t then Ok () (clearClassHighlight mid s)
            else Ok () (applyClassHighlight e mid t s)))"

subsection \<open>Hiding and showing elements\<close>



subsection \<open>Clipping planes\<close>

definition deleteAllPlanes :: "app \<Rightarrow> app" where
  "deleteAllPlanes s = (call DeleteAllPlanes s)\<lparr>viewer := (viewer s)\<lparr>clipper_planes := []\<rparr>\<rparr>"

definition createPlane :: "env \<Rightarrow> app \<Rightarrow> app" where
  "createPlane e s =
    (call CreatePlane s)
      \<lparr>viewer := (viewer s)\<lparr>clipper_planes := clipper_planes (viewer s) @ e_createPlane e\<rparr>\<rparr>"

definition handleToggleClip :: "app \<Rightarrow> app" where
  "handleToggleClip s =
    (if \<not> viewerRef s then s
     else
       (let next = \<not> clipper_active (viewer s)
        in s\<lparr>viewer := (viewer s)\<lparr>clipper_active := next\<rparr>, clipEnabled := next\<rparr>))"

definition handleAddPlane :: "app \<Rightarrow> app" where
  "handleAddPlane s =
    (if \<not> viewerRef s \<or> modelID s = None then s
     else
       (let s1 = s\<lparr>viewer := (viewer s)\<lparr>clipper_active := True\<rparr>, clipEnabled := True\<rparr>;
            s2 = call UnpickIfcItems (call UnPrepickIfcItems s1)
        in s2\<lparr>placingPlaneRef := True, placingPlane := True\<rparr>))"

definition handleClearPlanes :: "app \<Rightarrow> app" where
  "handleClearPlanes s =
    (if \<not> viewerRef s then s
     else (deleteAllPlanes s)\<lparr>placingPlaneRef := False, placingPlane := False\<rparr>)"

subsection \<open>Pointer events on the canvas\<close>

text \<open>
  The handlers of the canvas are created once, by the effect that runs after the first
  render, and never replaced: the \<open>selectedClassType\<close> and \<open>modelID\<close> they read are the
  values of that render. They are the first two arguments of the closures below. The
  handlers also copy the pointer position into \<open>viewer.context.mouse\<close>, an object the
  program never reads; that copy is left out.
\<close>

definition GRID_MAJOR_M :: real where
  "GRID_MAJOR_M = 1"

definition first_material :: "mesh_material \<Rightarrow> mat_ref option" where
  "first_material mm =
    (case mm of
       NoMaterial \<Rightarrow> None
     | OneMaterial r \<Rightarrow> Some r
     | ManyMaterials rs \<Rightarrow> (case rs of [] \<Rightarrow> None | r # _ \<Rightarrow> Some r))"

definition style_plane :: "plane \<Rightarrow> app \<Rightarrow> app" where
  "style_plane pl s =
    (case first_material (planeMesh pl) of
       None \<Rightarrow> s
     | Some r \<Rightarrow>
         if color (materials s r) = None then s
         else
           (let m1 = (materials s r)
                       \<lparr>color := Some 0x2f66c7, opacity := Some 0.25, transparent := Some True,
                        mat_map := (case planeGridRef s of
                                      None \<Rightarrow> None
                                    | Some _ \<Rightarrow> Some PlaneGridTexture)\<rparr>;
                grid = (case planeGridRef s of
                          None \<Rightarrow> None
                        | Some tx \<Rightarrow>
                            (let repeats = max 1 (clipper_planeSize (viewer s) / GRID_MAJOR_M)
                             in Some (tx\<lparr>repeat_x := repeats, repeat_y := repeats\<rparr>)))
            in s\<lparr>materials := (materials s)(r := m1\<lparr>needsUpdate := True\<rparr>),
                 planeGridRef := grid\<rparr>))"

definition place_plane :: "env \<Rightarrow> app \<Rightarrow> app" where
  "place_plane e s =
    (let before = length (clipper_planes (viewer s));
         s1 = createPlane e s;
         after = length (clipper_planes (viewer s1));
         s2 = (if after > before
               then style_plane (clipper_planes (viewer s1) ! (after - 1)) s1
               else s1)
     in s2\<lparr>placingPlaneRef := False, placingPlane := False\<rparr>)"

text \<open>
  Picking: \<open>pickIfcItem\<close>, and when it finds nothing a ray cast whose hit is read with
  \<open>getExpressId\<close>.
\<close>

definition pick_or_cast :: "env \<Rightarrow> (nat \<times> nat) option \<Rightarrow> app \<Rightarrow> (nat \<times> nat) option \<times> app" where
  "pick_or_cast e picked s =
    (case picked of
       Some r \<Rightarrow> (Some r, s)
     | None \<Rightarrow>
         (case e_castRayIfc e of
            None \<Rightarrow> (None, call CastRayIfc s)
          | Some i \<Rightarrow>
              (case i_expressId i of
                 None \<Rightarrow> (None, call CastRayIfc s)
               | Some x \<Rightarrow> (Some (i_modelID i, x), call CastRayIfc s))))"

definition stale_clear :: "ifc_type option \<Rightarrow> nat option \<Rightarrow> app \<Rightarrow> app" where
  "stale_clear sel mid s =
    (case sel of
       None \<Rightarrow> s
     | Some _ \<Rightarrow> (case mid of None \<Rightarrow> s | Some m \<Rightarrow> clearClassHighlight m s))"

definition handleClick_closure ::
  "ifc_type option \<Rightarrow> nat option \<Rightarrow> env \<Rightarrow> app \<Rightarrow> (unit, app) outcome" where
  "handleClick_closure sel mid e s0 =
    (let s = s0\<lparr>contextMenu := (contextMenu s0)\<lparr>cm_visible := False\<rparr>\<rparr> in
     if placingPlaneRef s then Ok () (place_plane e s)
     else
       (let s1 = stale_clear sel mid s in
        case e_pickIfcItem e of
          Rejected \<Rightarrow> Err (call PickIfcItem s1)
        | Resolved picked \<Rightarrow>
            (let (result, s2) = pick_or_cast e picked (call PickIfcItem s1) in
             case result of
               None \<Rightarrow> Ok () ((call UnpickIfcItems s2)\<lparr>properties := None\<rparr>)
             | Some (rModel, rId) \<Rightarrow>
                 (case fetchProperties e rModel rId s2 of
                    Err s3 \<Rightarrow> Err s3
                  | Ok p s3 \<Rightarrow> Ok () (s3\<lparr>properties := p\<rparr>)))))"

definition handleClick :: "env \<Rightarrow> app \<Rightarrow> (unit, app) outcome" where
  "handleClick = handleClick_closure None None"

definition handleMove :: "app \<Rightarrow> app" where
  "handleMove s = (if placingPlaneRef s then s else call PrePickIfcItem s)"



subsection \<open>Loading a file\<close>

text \<open>
  The body of the \<open>try\<close> block of \<open>handleLoadIfc\<close>. \<open>sel\<close> is the \<open>selectedClassType\<close> of the
  render the handler closes over. What the library itself does to \<open>context.items\<close> while it
  loads is not the program's: \<open>ifcModels\<close> is what the library holds when a handler starts.
\<close>

definition loadIfc_try ::
  "env \<Rightarrow> ifc_file \<Rightarrow> string \<Rightarrow> ifc_type option \<Rightarrow> app \<Rightarrow> (unit, app) outcome" where
  "loadIfc_try e f url sel s =
    (case e_loadIfcUrl e url of
       Rejected \<Rightarrow> Err s
     | Resolved None \<Rightarrow> Ok () (setStatus ''Failed to load IFC.'' s)
     | Resolved (Some model) \<Rightarrow>
         (let s1 = (if m_geometry model then call ComputeBounds s else s);
              s2 = call (SceneAdd (m_modelID model) True) s1;
              s3 = s2\<lparr>modelID := Some (m_modelID model)\<rparr>;
              s4 = setStatus (''Loaded: '' @ file_name f) s3;
              s5 = call (RenderShadow (m_modelID model)) s4;
              s6 = (if e_recenter e then call Recenter s5 else s5);
              s7 = s6\<lparr>viewer := (viewer s6)\<lparr>clipper_planeSize := e_planeSize e\<rparr>\<rparr>;
              s8 = call ScheduleFitToFrame s7
          in case updateClassCounts e (m_modelID model) s8 of
               Err s9 \<Rightarrow> Err s9
             | Ok _ s9 \<Rightarrow>
                 (case sel of
                    None \<Rightarrow> Ok () s9
                  | Some t \<Rightarrow> Ok () (applyClassHighlight e (m_modelID model) t s9))))"

text \<open>The statements of \<open>handleLoadIfc\<close> before its \<open>try\<close> block.\<close>

definition reset_for_load :: "env \<Rightarrow> app \<Rightarrow> app" where
  "reset_for_load e s =
    (let s1 = deleteAllPlanes s;
         s2 = s1\<lparr>viewer := (viewer s1)\<lparr>clipper_active := False\<rparr>, clipEnabled := False\<rparr>;
         s3 = (case modelID s of None \<Rightarrow> s2 | Some mid \<Rightarrow> clearClassHighlight mid s2);
         s4 = s3\<lparr>transparencyCacheRef := Map.empty, hiddenIdsRef := {},
                 visibleSubsetRef := None, allProductIdsRef := None\<rparr>;
         s5 = (setStatus ''Loading IFC...'' s4)
                \<lparr>properties := None, selectedClassType := None, typeCacheRef := Map.empty\<rparr>
     in s5\<lparr>urlLog := urlLog s5 @ [CreateObjectURL (e_objectURL e)]\<rparr>)"

text \<open>
  \<open>handleLoadIfc\<close>: the \<open>catch\<close> clause sets the failure status and logs the error, the
  \<open>finally\<close> clause revokes the object URL on every path out of the \<open>try\<close> block.
\<close>

definition handleLoadIfc :: "env \<Rightarrow> ifc_file \<Rightarrow> app \<Rightarrow> (unit, app) outcome" where
  "handleLoadIfc e f s =
    (if \<not> viewerRef s then Ok () s
     else
       (let url = e_objectURL e;
            s6 = reset_for_load e s;
            s7 = (case loadIfc_try e f url (selectedClassType s) s6 of
                    Err s' \<Rightarrow> console_log ''error'' (setStatus ''Failed to load IFC.'' s')
                  | Ok _ s' \<Rightarrow> s')
        in Ok () (s7\<lparr>urlLog := urlLog s7 @ [RevokeObjectURL url]\<rparr>)))"

subsection \<open>The first render and the mounting effect\<close>

text \<open>
  The initial values of \<open>useState\<close> and \<open>useRef\<close>, and the effect that builds the grid
  texture and the viewer; \<open>fresh\<close> is the viewer object as the library's constructor
  returns it and \<open>ms\<close> the material objects that exist.
\<close>

definition mount :: "viewer \<Rightarrow> (mat_ref \<Rightarrow> material) \<Rightarrow> app" where
  "mount fresh ms =
    \<lparr>viewerRef = True,
     viewer = fresh\<lparr>clipper_active := True, clipper_edgesActive := True\<rparr>,
     modelID = None, status = ''Load an IFC file to begin.'', properties = None,
     clipEnabled = True, placingPlane = False, placingPlaneRef = False,
     planeGridRef = Some \<lparr>repeat_x = 1, repeat_y = 1\<rparr>,
     classCounts = [], selectedClassType = None,
     contextMenu = \<lparr>cm_x = 0, cm_y = 0, cm_visible = False, cm_hasSelection = False\<rparr>,
     selectedItemRef = None, highlightSubsetRef = None, highlightMaterialRef = None,
     transparencyCacheRef = Map.empty, hiddenIdsRef = {}, visibleSubsetRef = None,
     allProductIdsRef = None, typeCacheRef = Map.empty, materials = ms,
     statusLog = [], urlLog = [], calls = [], console = []\<rparr>"

subsection \<open>The first revision\<close>

record v1_app =
  v1_viewerRef :: bool
  v1_clipper_active :: bool
  v1_modelID :: "nat option"
  v1_status :: string
  v1_properties :: string
  v1_clipEnabled :: bool
  v1_hiddenTypes :: "ifc_type \<rightharpoonup> bool"
  v1_statusLog :: "string list"
  v1_urlLog :: "url_event list"
  v1_calls :: "lib_call list"
  v1_console :: "string list"

definition v1_call :: "lib_call \<Rightarrow> v1_app \<Rightarrow> v1_app" where
  "v1_call c s = s\<lparr>v1_calls := v1_calls s @ [c]\<rparr>"

definition v1_setStatus :: "string \<Rightarrow> v1_app \<Rightarrow> v1_app" where
  "v1_setStatus x s = s\<lparr>v1_status := x, v1_statusLog := v1_statusLog s @ [x]\<rparr>"

text \<open>\<open>hiddenTypes[type] ?? false\<close>, the flag of a filter.\<close>

definition v1_filterState :: "v1_app \<Rightarrow> ifc_type \<Rightarrow> bool" where
  "v1_filterState s t = (case v1_hiddenTypes s t of None \<Rightarrow> False | Some b \<Rightarrow> b)"

definition v1_handleClick :: "env \<Rightarrow> v1_app \<Rightarrow> (unit, v1_app) outcome" where
  "v1_handleClick e s =
    (case e_pickIfcItem e of
       Rejected \<Rightarrow> Err (v1_call PickIfcItem s)
     | Resolved None \<Rightarrow> Ok () ((v1_call PickIfcItem s)\<lparr>v1_properties := ''''\<rparr>)
     | Resolved (Some (rModel, rId)) \<Rightarrow>
         (case e_getProperties e rModel rId True True of
            Rejected \<Rightarrow> Err (v1_call PickIfcItem s)
          | Resolved p \<Rightarrow> Ok () ((v1_call PickIfcItem s)\<lparr>v1_properties := e_stringify e p\<rparr>)))"

text \<open>
  In the first revision a load that resolves without a model fails at \<open>model.modelID\<close>,
  inside the \<open>try\<close> block.
\<close>

definition v1_loadIfc_try :: "env \<Rightarrow> ifc_file \<Rightarrow> string \<Rightarrow> v1_app \<Rightarrow> (unit, v1_app) outcome" where
  "v1_loadIfc_try e f url s =
    (case e_loadIfcUrl e url of
       Rejected \<Rightarrow> Err s
     | Resolved None \<Rightarrow> Err s
     | Resolved (Some model) \<Rightarrow>
         (let s1 = s\<lparr>v1_modelID := Some (m_modelID model)\<rparr>;
              s2 = v1_setStatus (''Loaded: '' @ file_name f) s1
          in Ok () (v1_call (RenderShadow (m_modelID model)) s2)))"

definition v1_handleLoadIfc :: "env \<Rightarrow> ifc_file \<Rightarrow> v1_app \<Rightarrow> (unit, v1_app) outcome" where
  "v1_handleLoadIfc e f s =
    (if \<not> v1_viewerRef s then Ok () s
     else
       (let s1 = (v1_setStatus ''Loading IFC...'' s)\<lparr>v1_properties := ''''\<rparr>;
            url = e_objectURL e;
            s2 = s1\<lparr>v1_urlLog := v1_urlLog s1 @ [CreateObjectURL url]\<rparr>;
            s3 = (case v1_loadIfc_try e f url s2 of
                    Err s' \<Rightarrow>
                      (v1_setStatus ''Failed to load IFC.'' s')
                        \<lparr>v1_console := v1_console s' @ [''error'']\<rparr>
                  | Ok _ s' \<Rightarrow> s')
        in Ok () (s3\<lparr>v1_urlLog := v1_urlLog s3 @ [RevokeObjectURL url]\<rparr>)))"

definition v1_toggleFilter :: "env \<Rightarrow> ifc_type \<Rightarrow> v1_app \<Rightarrow> (unit, v1_app) outcome" where
  "v1_toggleFilter e t s =
    (if \<not> v1_viewerRef s then Ok () s
     else
       (case v1_modelID s of
          None \<Rightarrow> Ok () s
        | Some mid \<Rightarrow>
            (let shouldHide = \<not> v1_filterState s t in
             case e_getAllItemsOfType e mid t False of
               Rejected \<Rightarrow> Err s
             | Resolved items \<Rightarrow>
                 (let s1 = (if shouldHide then v1_call (HideItems mid items) s
                            else v1_call (ShowItems mid items) s)
                  in Ok () (s1\<lparr>v1_hiddenTypes := (v1_hiddenTypes s1)(t \<mapsto> shouldHide)\<rparr>)))))"

definition v1_mount :: v1_app where
  "v1_mount =
    \<lparr>v1_viewerRef = True, v1_clipper_active = True, v1_modelID = None,
     v1_status = ''Load an IFC file to begin.'', v1_properties = '''',
     v1_clipEnabled = True, v1_hiddenTypes = Map.empty,
     v1_statusLog = [], v1_urlLog = [], v1_calls = [], v1_console = []\<rparr>"

subsection \<open>Notions used in the statements\<close>

text \<open>
  The elements of a class in a model, as the program sees them: the ids it normalises out
  of the answer of \<open>getAllItemsOfType\<close>; and the count entry of a listed class.
\<close>

definition elements_of_class :: "env \<Rightarrow> nat \<Rightarrow> ifc_type \<Rightarrow> nat list" where
  "elements_of_class e currentModelId t =
    (case e_getAllItemsOfType e currentModelId t False of
       Rejected \<Rightarrow> []
     | Resolved items \<Rightarrow> normalizeIds items)"

definition listed_count :: "env \<Rightarrow> nat \<Rightarrow> string \<times> ifc_type \<Rightarrow> class_count" where
  "listed_count e currentModelId entry =
    \<lparr>cc_name = fst entry, cc_type = snd entry,
     cc_count = length (elements_of_class e currentModelId (snd entry))\<rparr>"

text \<open>
  \<open>counts_resolve\<close>: the library answers every lookup of \<open>updateClassCounts\<close>.
\<close>

definition counts_resolve :: "env \<Rightarrow> nat \<Rightarrow> bool" where
  "counts_resolve e currentModelId \<longleftrightarrow>
     list_all (\<lambda>entry. e_getAllItemsOfType e currentModelId (snd entry) False \<noteq> Rejected)
       IFC_CLASS_LIST"

text \<open>
  The status strings the \<open>try\<close> block of \<open>handleLoadIfc\<close> passes to \<open>setStatus\<close>, and
  whether an awaited call of the block rejects.
\<close>

definition try_statuses :: "env \<Rightarrow> ifc_file \<Rightarrow> string list" where
  "try_statuses e f =
    (case e_loadIfcUrl e (e_objectURL e) of
       Rejected \<Rightarrow> []
     | Resolved None \<Rightarrow> [''Failed to load IFC.'']
     | Resolved (Some model) \<Rightarrow> [''Loaded: '' @ file_name f])"

definition try_rejects :: "env \<Rightarrow> bool" where
  "try_rejects e =
    (case e_loadIfcUrl e (e_objectURL e) of
       Rejected \<Rightarrow> True
     | Resolved None \<Rightarrow> False
     | Resolved (Some model) \<Rightarrow> \<not> counts_resolve e (m_modelID model))"

text \<open>
  The element a click of the second revision resolves: what \<open>pickIfcItem\<close> found, or else
  the hit of the ray cast when it carries an express id.
\<close>

definition resolved_element :: "env \<Rightarrow> (nat \<times> nat) option" where
  "resolved_element e =
    (case e_pickIfcItem e of
       Rejected \<Rightarrow> None
     | Resolved (Some r) \<Rightarrow> Some r
     | Resolved None \<Rightarrow>
         (case e_castRayIfc e of
            None \<Rightarrow> None
          | Some i \<Rightarrow>
              (case i_expressId i of None \<Rightarrow> None | Some x \<Rightarrow> Some (i_modelID i, x))))"

text \<open>
  What a lookup of the fallback of \<open>fetchProperties\<close> contributes: the list it resolves
  with, or the empty list the variable was initialised with when it rejects.
\<close>

definition lookup_or_empty :: "string list promise \<Rightarrow> string list" where
  "lookup_or_empty p = (case p of Rejected \<Rightarrow> [] | Resolved xs \<Rightarrow> xs)"

text \<open>The material \<open>highlightMaterialRef\<close> holds once \<open>applyClassHighlight\<close> has ensured it.\<close>

definition highlight_ref :: "app \<Rightarrow> mat_ref" where
  "highlight_ref s = (case highlightMaterialRef s of None \<Rightarrow> HighlightMaterial | Some r \<Rightarrow> r)"


text \<open>
  \<open>highlight_frame s s'\<close>: the two states agree on everything but the highlight machinery
  (materials, transparency cache, highlight subset and material, selected class, type
  cache) and the histories of library commands and console messages.
\<close>

definition highlight_frame :: "app \<Rightarrow> app \<Rightarrow> bool" where
  "highlight_frame s s' \<longleftrightarrow>
     viewerRef s' = viewerRef s \<and> viewer s' = viewer s \<and> modelID s' = modelID s
     \<and> status s' = status s \<and> statusLog s' = statusLog s \<and> urlLog s' = urlLog s
     \<and> properties s' = properties s \<and> clipEnabled s' = clipEnabled s
     \<and> placingPlane s' = placingPlane s \<and> placingPlaneRef s' = placingPlaneRef s
     \<and> planeGridRef s' = planeGridRef s \<and> classCounts s' = classCounts s
     \<and> contextMenu s' = contextMenu s \<and> selectedItemRef s' = selectedItemRef s
     \<and> hiddenIdsRef s' = hiddenIdsRef s \<and> visibleSubsetRef s' = visibleSubsetRef s
     \<and> allProductIdsRef s' = allProductIdsRef s"

subsection \<open>Concrete inputs\<close>

text \<open>
  A small session: a viewer as the library hands it over, one model with three material
  slots (two of them the same object), and a library that reports two walls, three doors
  and one element of a class outside \<open>IFC_CLASS_LIST\<close>.
\<close>

definition demo_material :: material where
  "demo_material =
    \<lparr>opacity = Some 1, transparent = Some False, depthWrite = Some True,
     color = Some 0xffffff, mat_map = None, needsUpdate = False, clippingPlanes = None\<rparr>"

definition demo_model :: ifc_model where
  "demo_model =
    \<lparr>m_modelID = 0, m_visible = True,
     m_material = ManyMaterials [LibMaterial 0, LibMaterial 1, LibMaterial 0],
     m_geometry = True\<rparr>"

definition demo_viewer :: viewer where
  "demo_viewer =
    \<lparr>clipper_active = False, clipper_edgesActive = False, clipper_planes = [],
     clipper_planeSize = 5, ifcModels = [], pickableIfcModels = [],
     contextClippingPlanes = []\<rparr>"

text \<open>
  \<open>started\<close> is the component after mounting; \<open>loaded\<close> is the session once a file has
  been loaded: the library holds the model, the program its id.
\<close>

definition started :: app where
  "started = mount demo_viewer (\<lambda>r. demo_material)"

definition loaded :: app where
  "loaded =
    started\<lparr>viewer := (viewer started)
                \<lparr>ifcModels := [demo_model], pickableIfcModels := [PickModel 0]\<rparr>,
            modelID := Some 0, status := ''Loaded: a.ifc''\<rparr>"

definition demo_props :: props where
  "demo_props =
    \<lparr>p_fields = [(''Name'', ''Wall-1'')], p_psets = [''Pset_WallCommon''],
     p_mats = [], p_type = []\<rparr>"

definition demo_items :: "ifc_type \<Rightarrow> ifc_item list" where
  "demo_items t =
    (if t = IFCWALL then [ItemNumber 1, ItemNumber 2]
     else if t = IFCDOOR then [ItemNumber 3, ItemObject (Some 4), ItemNullish, ItemNumber 5]
     else if t = OtherType 1 then [ItemNumber 7]
     else [])"

definition demo_env :: env where
  "demo_env =
    \<lparr>e_objectURL = ''blob:a'',
     e_loadIfcUrl = (\<lambda>url. Resolved (Some demo_model)),
     e_getAllItemsOfType = (\<lambda>m t verbose. Resolved (demo_items t)),
     e_pickIfcItem = Resolved (Some (0, 2)),
     e_castRayIfc = None,
     e_getProperties = (\<lambda>m i indirect recursive. Resolved (Some demo_props)),
     e_getItemProperties = (\<lambda>m i recursive. Resolved (Some [(''Name'', ''Wall-1'')])),
     e_getPropertySets = (\<lambda>m i recursive. Resolved [''Pset_WallCommon'']),
     e_getMaterialsProperties = (\<lambda>m i recursive. Resolved []),
     e_getTypeProperties = (\<lambda>m i recursive. Resolved []),
     e_createPlane = [\<lparr>planeMesh = OneMaterial (LibMaterial 9)\<rparr>],
     e_createSubset = (\<lambda>m ids mat customID.
        Some (case mat of None \<Rightarrow> m_material demo_model | Some r \<Rightarrow> OneMaterial r)),
     e_recenter = False,
     e_planeSize = 5,
     e_stringify = (\<lambda>p. case p of None \<Rightarrow> ''undefined'' | Some x \<Rightarrow> ''{...}'')\<rparr>"

text \<open>A file to load, and the first revision with a model loaded.\<close>

definition demo_file :: ifc_file where
  "demo_file = \<lparr>file_name = ''a.ifc''\<rparr>"

definition v1_loaded :: v1_app where
  "v1_loaded = v1_mount\<lparr>v1_modelID := Some 0, v1_status := ''Loaded: a.ifc''\<rparr>"

text \<open>A library whose property lookups all reject, and one whose picking rejects.\<close>

definition no_props_env :: env where
  "no_props_env =
    demo_env\<lparr>e_getProperties := (\<lambda>m i indirect recursive. Rejected),
             e_getItemProperties := (\<lambda>m i recursive. Rejected)\<rparr>"

text \<open>
  A library whose \<open>getProperties\<close> and materials lookup reject while the other lookups
  of the fallback answer.
\<close>

definition fallback_env :: env where
  "fallback_env =
    demo_env\<lparr>e_getProperties := (\<lambda>m i indirect recursive. Rejected),
             e_getMaterialsProperties := (\<lambda>m i recursive. Rejected)\<rparr>"

definition no_pick_env :: env where
  "no_pick_env = demo_env\<lparr>e_pickIfcItem := Rejected\<rparr>"


text \<open>A library that finds nothing under the pointer.\<close>

definition none_env :: env where
  "none_env = demo_env\<lparr>e_pickIfcItem := Resolved None\<rparr>"


section \<open>Properties\<close>

subsection \<open>Fading and restoring\<close>

lemma fade_fold_cache:
  "transparencyCacheRef (fold (fade_material op) rs s) r =
     (if r \<in> set rs \<and> transparencyCacheRef s r = None
      then Some (first_seen (materials s r)) else transparencyCacheRef s r)"
  by (induction rs arbitrary: s) (auto simp: fade_material_def Let_def)

lemma faded_faded: "faded op (faded op' m) = faded op m"
  by (simp add: faded_def)

lemma fade_fold_materials:
  "materials (fold (fade_material op) rs s) r =
     (if r \<in> set rs then faded op (materials s r) else materials s r)"
  by (induction rs arbitrary: s) (auto simp: fade_material_def Let_def faded_faded)

lemma unfaded_idem: "unfaded c (unfaded c m) = unfaded c m"
  by (simp add: unfaded_def)

lemma unfade_fold_cache:
  "transparencyCacheRef (fold unfade_material rs s) = transparencyCacheRef s"
  by (induction rs arbitrary: s) (auto simp: unfade_material_def split: option.splits)

lemma unfade_fold_materials:
  "materials (fold unfade_material rs s) r =
     (if r \<in> set rs
      then (case transparencyCacheRef s r of
              None \<Rightarrow> materials s r
            | Some c \<Rightarrow> unfaded c (materials s r))
      else materials s r)"
  by (induction rs arbitrary: s)
    (auto simp: unfade_material_def unfaded_idem split: option.splits)

text \<open>
  After any number of fades of a mesh the cache holds, for each of its materials, the
  entry it had before or else the values first seen; the material itself carries the last
  opacity.
\<close>

lemma fades_cache:
  "transparencyCacheRef (fold (setMeshTransparency msh) ops s) r =
     (if ops \<noteq> [] \<and> r \<in> set (material_list (mesh_material_of msh))
         \<and> transparencyCacheRef s r = None
      then Some (first_seen (materials s r)) else transparencyCacheRef s r)"
  by (induction ops arbitrary: s)
    (auto simp: setMeshTransparency_def fade_fold_cache fade_fold_materials)

lemma fades_materials:
  "materials (fold (setMeshTransparency msh) ops s) r =
     (if ops \<noteq> [] \<and> r \<in> set (material_list (mesh_material_of msh))
      then faded (last ops) (materials s r) else materials s r)"
  by (induction ops arbitrary: s)
    (auto simp: setMeshTransparency_def fade_fold_materials faded_faded)

lemma unfaded_first_seen:
  assumes "opacity m \<noteq> None" "transparent m \<noteq> None" "depthWrite m \<noteq> None"
  shows "unfaded (first_seen m) (faded op m) = m" and "unfaded (first_seen m) m = m"
  using assms by (auto simp: unfaded_def first_seen_def faded_def)

text \<open>
  Claim C9. Take a material of a mesh whose three fields are present and which the cache
  does not know yet (or knows with its present values). After any number of calls of
  \<open>setMeshTransparency\<close> on the mesh, with any opacities, \<open>restoreMeshTransparency\<close> gives
  the material back as it was before the first call: its opacity, its transparent flag
  and its depthWrite flag, and every other field with them.
\<close>

theorem restore_after_setMeshTransparency:
  assumes "r \<in> set (material_list (mesh_material_of msh))"
    and "transparencyCacheRef s r = None
         \<or> transparencyCacheRef s r = Some (first_seen (materials s r))"
    and "opacity (materials s r) \<noteq> None"
    and "transparent (materials s r) \<noteq> None"
    and "depthWrite (materials s r) \<noteq> None"
  shows "materials (restoreMeshTransparency msh (fold (setMeshTransparency msh) ops s)) r
         = materials s r"
  using assms
  by (auto simp: restoreMeshTransparency_def unfade_fold_materials fades_cache
      fades_materials unfaded_first_seen)

theorem restore_after_setMeshTransparency_witness:
  "LibMaterial 0 \<in> set (material_list (mesh_material_of (ModelMesh demo_model)))
   \<and> transparencyCacheRef loaded (LibMaterial 0) = None
   \<and> opacity (materials loaded (LibMaterial 0)) = Some 1
   \<and> transparent (materials loaded (LibMaterial 0)) = Some False
   \<and> depthWrite (materials loaded (LibMaterial 0)) = Some True
   \<and> materials
        (restoreMeshTransparency (ModelMesh demo_model)
           (fold (setMeshTransparency (ModelMesh demo_model)) [0.2, 0.5] loaded))
        (LibMaterial 0)
      = demo_material"
proof -
  have m: "LibMaterial 0 \<in> set (material_list (mesh_material_of (ModelMesh demo_model)))"
    by (simp add: demo_model_def)
  have c: "transparencyCacheRef loaded (LibMaterial 0) = None"
    by (simp add: loaded_def started_def mount_def)
  have v: "materials loaded (LibMaterial 0) = demo_material"
    by (simp add: loaded_def started_def mount_def)
  have d: "opacity demo_material = Some 1" "transparent demo_material = Some False"
    "depthWrite demo_material = Some True"
    by (simp_all add: demo_material_def)
  from restore_after_setMeshTransparency [of "LibMaterial 0" "ModelMesh demo_model" loaded
      "[0.2, 0.5]"] m c v d
  show ?thesis by simp
qed

subsection \<open>Class counts\<close>

lemma count_entry_Resolved:
  "count_entry e mid entry = Resolved c \<Longrightarrow> c = listed_count e mid entry"
  by (auto simp: count_entry_def listed_count_def elements_of_class_def split: promise.splits)

lemma counts_Resolved:
  assumes "promise_all (map (count_entry e mid) xs) = Resolved rs"
  shows "rs = map (listed_count e mid) xs"
  using assms
proof (induction xs arbitrary: rs)
  case Nil
  then show ?case by simp
next
  case (Cons x xs)
  then show ?case
    by (auto split: promise.splits dest: count_entry_Resolved)
qed

lemma counts_all_resolve:
  assumes "\<forall>entry \<in> set xs. e_getAllItemsOfType e mid (snd entry) False \<noteq> Rejected"
  shows "promise_all (map (count_entry e mid) xs) = Resolved (map (listed_count e mid) xs)"
  using assms
  by (induction xs)
    (auto simp: count_entry_def listed_count_def elements_of_class_def split: promise.splits)

lemma updateClassCounts_Ok:
  assumes "updateClassCounts e mid s = Ok () s'"
  shows "s' = s\<lparr>classCounts :=
               sort_key (\<lambda>item. - int (cc_count item))
                 (filter (\<lambda>item. cc_count item > 0)
                    (map (listed_count e mid) IFC_CLASS_LIST))\<rparr>"
  using assms
  by (auto simp: updateClassCounts_def Let_def split: promise.splits dest: counts_Resolved)

lemma updateClassCounts_returns:
  assumes "\<forall>entry \<in> set IFC_CLASS_LIST. e_getAllItemsOfType e mid (snd entry) False \<noteq> Rejected"
  shows "\<exists>s'. updateClassCounts e mid s = Ok () s'"
  by (simp add: updateClassCounts_def counts_all_resolve [OF assms] Let_def)

lemma classCounts_members:
  assumes "updateClassCounts e mid s = Ok () s'"
  shows "set (classCounts s')
         = {c \<in> set (map (listed_count e mid) IFC_CLASS_LIST). 0 < cc_count c}"
  using updateClassCounts_Ok [OF assms] by simp

lemma classCounts_listed_iff:
  assumes "updateClassCounts e mid s = Ok () s'" and entry: "entry \<in> set IFC_CLASS_LIST"
  shows "(\<exists>c \<in> set (classCounts s'). cc_type c = snd entry)
           \<longleftrightarrow> elements_of_class e mid (snd entry) \<noteq> []"
proof
  assume "\<exists>c \<in> set (classCounts s'). cc_type c = snd entry"
  then obtain x where "x \<in> set IFC_CLASS_LIST" "snd x = snd entry"
    "0 < cc_count (listed_count e mid x)"
    by (auto simp: classCounts_members [OF assms(1)] listed_count_def)
  then show "elements_of_class e mid (snd entry) \<noteq> []"
    by (auto simp: listed_count_def)
next
  assume "elements_of_class e mid (snd entry) \<noteq> []"
  then have "listed_count e mid entry \<in> set (classCounts s')"
    using entry by (auto simp: classCounts_members [OF assms(1)] listed_count_def)
  then show "\<exists>c \<in> set (classCounts s'). cc_type c = snd entry"
    by (auto simp: listed_count_def intro!: bexI [of _ "listed_count e mid entry"])
qed

lemma classCounts_sorted:
  assumes "updateClassCounts e mid s = Ok () s'"
  shows "sorted_wrt (\<lambda>a b. cc_count a \<ge> cc_count b) (classCounts s')"
proof -
  have "sorted (map (\<lambda>item. - int (cc_count item)) (classCounts s'))"
    using updateClassCounts_Ok [OF assms] by simp
  then show ?thesis
    by (simp add: sorted_wrt_map)
qed

text \<open>
  Claim C10, as the code has it. When the library answers the twenty lookups of
  \<open>IFC_CLASS_LIST\<close>, \<open>updateClassCounts\<close> returns, and the list it stores has an entry for a
  class of \<open>IFC_CLASS_LIST\<close> exactly when the model has at least one element of that
  class; every entry is a class of that list with its strictly positive count; and the
  counts never increase along the list.
\<close>

theorem updateClassCounts_listed_classes:
  assumes "\<forall>entry \<in> set IFC_CLASS_LIST. e_getAllItemsOfType e mid (snd entry) False \<noteq> Rejected"
  shows "\<exists>s'. updateClassCounts e mid s = Ok () s'
           \<and> (\<forall>entry \<in> set IFC_CLASS_LIST.
                 (\<exists>c \<in> set (classCounts s'). cc_type c = snd entry)
                   \<longleftrightarrow> elements_of_class e mid (snd entry) \<noteq> [])
           \<and> (\<forall>c \<in> set (classCounts s').
                 0 < cc_count c \<and> (cc_name c, cc_type c) \<in> set IFC_CLASS_LIST
                 \<and> cc_count c = length (elements_of_class e mid (cc_type c)))
           \<and> sorted_wrt (\<lambda>a b. cc_count a \<ge> cc_count b) (classCounts s')"
proof -
  from updateClassCounts_returns [OF assms]
  obtain s' where ok: "updateClassCounts e mid s = Ok () s'" ..
  have "\<forall>c \<in> set (classCounts s').
          0 < cc_count c \<and> (cc_name c, cc_type c) \<in> set IFC_CLASS_LIST
          \<and> cc_count c = length (elements_of_class e mid (cc_type c))"
    by (auto simp: classCounts_members [OF ok] listed_count_def)
  with ok classCounts_listed_iff [OF ok] classCounts_sorted [OF ok]
  show ?thesis by blast
qed

lemma demo_counts:
  "updateClassCounts demo_env 0 loaded =
     Ok () (loaded\<lparr>classCounts :=
        [\<lparr>cc_name = ''Doors'', cc_type = IFCDOOR, cc_count = 3\<rparr>,
         \<lparr>cc_name = ''Walls'', cc_type = IFCWALL, cc_count = 2\<rparr>]\<rparr>)"
  by (simp add: updateClassCounts_def IFC_CLASS_LIST_def count_entry_def demo_env_def
      demo_items_def normalizeIds_def)

theorem updateClassCounts_listed_classes_witness:
  "e_getAllItemsOfType demo_env 0 IFCSITE False \<noteq> Rejected
   \<and> (\<exists>s'. updateClassCounts demo_env 0 loaded = Ok () s'
         \<and> map cc_count (classCounts s') = [3, 2]
         \<and> sorted_wrt (\<lambda>a b. cc_count a \<ge> cc_count b) (classCounts s'))"
proof -
  have h: "\<forall>entry \<in> set IFC_CLASS_LIST.
             e_getAllItemsOfType demo_env 0 (snd entry) False \<noteq> Rejected"
    by (simp add: demo_env_def)
  from updateClassCounts_listed_classes [OF h, of loaded]
  show ?thesis by (auto simp: demo_counts) (simp add: demo_env_def)
qed

text \<open>
  Claim C10 as it is written fails for a class that \<open>IFC_CLASS_LIST\<close> does not name: the
  model below has an element of class \<open>OtherType 1\<close>, and the list has entries for doors
  and walls only.
\<close>

theorem updateClassCounts_unlisted_class:
  "map cc_type (classCounts (final (updateClassCounts demo_env 0 loaded))) = [IFCDOOR, IFCWALL]
   \<and> elements_of_class demo_env 0 (OtherType 1) = [7]"
proof -
  have "elements_of_class demo_env 0 (OtherType 1) = [7]"
    by (simp add: elements_of_class_def demo_env_def demo_items_def normalizeIds_def)
  then show ?thesis by (simp add: demo_counts)
qed

subsection \<open>What the highlight machinery leaves alone\<close>

lemma highlight_frame_refl: "highlight_frame s s"
  by (simp add: highlight_frame_def)

lemma highlight_frame_trans:
  "highlight_frame s s' \<Longrightarrow> highlight_frame s' s'' \<Longrightarrow> highlight_frame s s''"
  by (simp add: highlight_frame_def)

lemma frame_fade_fold: "highlight_frame s (fold (fade_material op) rs s)"
proof (induction rs arbitrary: s)
  case Nil
  show ?case by (simp add: highlight_frame_refl)
next
  case (Cons r rs)
  have "highlight_frame s (fade_material op r s)"
    by (simp add: highlight_frame_def fade_material_def Let_def)
  with Cons [of "fade_material op r s"] show ?case
    by (auto intro: highlight_frame_trans)
qed

lemma frame_unfade_fold: "highlight_frame s (fold unfade_material rs s)"
proof (induction rs arbitrary: s)
  case Nil
  show ?case by (simp add: highlight_frame_refl)
next
  case (Cons r rs)
  have "highlight_frame s (unfade_material r s)"
    by (simp add: highlight_frame_def unfade_material_def split: option.splits)
  with Cons [of "unfade_material r s"] show ?case
    by (auto intro: highlight_frame_trans)
qed

lemma frame_setMeshTransparency: "highlight_frame s (setMeshTransparency msh op s)"
  by (simp add: setMeshTransparency_def frame_fade_fold)

lemma frame_restoreMeshTransparency: "highlight_frame s (restoreMeshTransparency msh s)"
  by (simp add: restoreMeshTransparency_def frame_unfade_fold)

lemmas restore_fields = frame_restoreMeshTransparency [unfolded highlight_frame_def]
lemmas fade_fields = frame_setMeshTransparency [unfolded highlight_frame_def]

lemma frame_clearClassHighlight: "highlight_frame s (clearClassHighlight mid s)"
proof -
  let ?s1 = "(if highlightSubsetRef s \<noteq> None
               then (call (RemoveSubset mid (highlightMaterialRef s) ''class-highlight'') s)
                    \<lparr>highlightSubsetRef := None\<rparr>
               else s)"
  let ?s2 = "(case getDisplayMesh mid ?s1 of
                 None \<Rightarrow> ?s1
               | Some target \<Rightarrow> restoreMeshTransparency target ?s1)"
  have 1: "highlight_frame s ?s1"
    by (simp add: highlight_frame_def call_def)
  have 2: "highlight_frame ?s1 ?s2"
    by (cases "getDisplayMesh mid ?s1")
      (simp_all only: option.case highlight_frame_refl frame_restoreMeshTransparency)
  have 3: "highlight_frame ?s2 (?s2\<lparr>selectedClassType := None\<rparr>)"
    by (simp add: highlight_frame_def)
  have "clearClassHighlight mid s = ?s2\<lparr>selectedClassType := None\<rparr>"
    by (simp only: clearClassHighlight_def Let_def)
  with highlight_frame_trans [OF highlight_frame_trans [OF 1 2] 3] show ?thesis
    by simp
qed

lemmas clear_fields = frame_clearClassHighlight [unfolded highlight_frame_def]

lemma frame_getTypeIds: "highlight_frame s (final (getTypeIds e mid t s))"
  by (simp add: getTypeIds_def highlight_frame_def Let_def split: option.splits promise.splits)

lemma frame_highlight_body: "highlight_frame s (highlight_body e mid t ids s)"
proof -
  let ?s3 = "ensure_highlight_material s"
  let ?r = "(case highlightMaterialRef ?s3 of None \<Rightarrow> HighlightMaterial | Some r \<Rightarrow> r)"
  let ?s4 = "?s3\<lparr>materials := (materials ?s3)
                          (?r := (materials ?s3 ?r)
                             \<lparr>clippingPlanes := Some (contextClippingPlanes (viewer ?s3))\<rparr>)\<rparr>"
  let ?s5 = "call (CreateSubset mid ids (Some ?r) ''class-highlight'') ?s4"
  let ?s6 = "(case e_createSubset e mid ids (Some ?r) ''class-highlight'' of
                       None \<Rightarrow> ?s5
                     | Some mm \<Rightarrow>
                         ?s5\<lparr>highlightSubsetRef :=
                              Some \<lparr>s_modelID = mid, s_ids = ids,
                                    s_customID = ''class-highlight'', s_material = mm\<rparr>\<rparr>)"
  let ?s7 = "(case getDisplayMesh mid ?s6 of
                       None \<Rightarrow> ?s6
                     | Some target \<Rightarrow> setMeshTransparency target 0.2 ?s6)"
  have 3: "highlight_frame s ?s3"
    by (simp add: highlight_frame_def ensure_highlight_material_def)
  have 5: "highlight_frame ?s3 ?s5"
    by (simp add: highlight_frame_def call_def)
  have 6: "highlight_frame ?s5 ?s6"
    by (cases "e_createSubset e mid ids (Some ?r) ''class-highlight''")
      (simp_all add: highlight_frame_def)
  have 7: "highlight_frame ?s6 ?s7"
    by (cases "getDisplayMesh mid ?s6")
      (simp_all only: option.case highlight_frame_refl frame_setMeshTransparency)
  have 8: "highlight_frame ?s7 (?s7\<lparr>selectedClassType := Some t\<rparr>)"
    by (simp add: highlight_frame_def)
  have "highlight_body e mid t ids s = ?s7\<lparr>selectedClassType := Some t\<rparr>"
    by (simp only: highlight_body_def Let_def)
  with highlight_frame_trans [OF highlight_frame_trans [OF highlight_frame_trans
        [OF highlight_frame_trans [OF 3 5] 6] 7] 8]
  show ?thesis by simp
qed

lemma applyClassHighlight_eq:
  "applyClassHighlight e mid t s =
    (case getTypeIds e mid t s of
       Err s' \<Rightarrow> clearClassHighlight mid (console_log ''Failed to resolve IFC class IDs'' s')
     | Ok ids s' \<Rightarrow>
         if ids = [] then clearClassHighlight mid s'
         else highlight_body e mid t ids (clearClassHighlight mid s'))"
  by (simp add: applyClassHighlight_def Let_def split: outcome.splits)

lemma frame_applyClassHighlight: "highlight_frame s (applyClassHighlight e mid t s)"
proof (cases "getTypeIds e mid t s")
  case (Ok ids s')
  with frame_getTypeIds [of s e mid t] have 1: "highlight_frame s s'" by simp
  have 2: "highlight_frame s' (clearClassHighlight mid s')"
    by (rule frame_clearClassHighlight)
  show ?thesis
    using Ok highlight_frame_trans [OF 1 2]
      highlight_frame_trans [OF highlight_frame_trans [OF 1 2] frame_highlight_body]
    by (simp add: applyClassHighlight_eq)
next
  case (Err s')
  with frame_getTypeIds [of s e mid t] have 1: "highlight_frame s s'" by simp
  have 2: "highlight_frame s' (console_log ''Failed to resolve IFC class IDs'' s')"
    by (simp add: highlight_frame_def console_log_def)
  show ?thesis
    using Err highlight_frame_trans [OF highlight_frame_trans [OF 1 2] frame_clearClassHighlight]
    by (simp add: applyClassHighlight_eq)
qed

lemma updateClassCounts_cases:
  "updateClassCounts e mid s = Err s
   \<or> (\<exists>cc. updateClassCounts e mid s = Ok () (s\<lparr>classCounts := cc\<rparr>))"
  by (auto simp: updateClassCounts_def Let_def split: promise.splits)

subsection \<open>Loading a file\<close>

lemma counts_some_reject:
  assumes "\<not> list_all (\<lambda>entry. e_getAllItemsOfType e mid (snd entry) False \<noteq> Rejected) xs"
  shows "promise_all (map (count_entry e mid) xs) = Rejected"
  using assms
  by (induction xs) (auto simp: count_entry_def split: promise.splits)

lemma updateClassCounts_run:
  "updateClassCounts e mid s =
     (if counts_resolve e mid
      then Ok () (s\<lparr>classCounts :=
              sort_key (\<lambda>item. - int (cc_count item))
                 (filter (\<lambda>item. cc_count item > 0)
                    (map (listed_count e mid) IFC_CLASS_LIST))\<rparr>)
      else Err s)"
proof (cases "counts_resolve e mid")
  case True
  then have "\<forall>entry \<in> set IFC_CLASS_LIST. e_getAllItemsOfType e mid (snd entry) False \<noteq> Rejected"
    by (simp add: counts_resolve_def list_all_iff)
  from counts_all_resolve [OF this] True show ?thesis
    by (simp add: updateClassCounts_def Let_def)
next
  case False
  then show ?thesis
    by (simp add: updateClassCounts_def counts_resolve_def counts_some_reject)
qed

lemmas apply_fields = frame_applyClassHighlight [unfolded highlight_frame_def]

lemma loadIfc_try_fields:
  fixes s :: app and e :: env and f :: ifc_file and sel :: "ifc_type option"
  defines "r \<equiv> loadIfc_try e f (e_objectURL e) sel s"
  shows "escaped r = try_rejects e"
    and "statusLog (final r) = statusLog s @ try_statuses e f"
    and "status (final r) = (if try_statuses e f = [] then status s else last (try_statuses e f))"
    and "urlLog (final r) = urlLog s"
    and "properties (final r) = properties s"
    and "clipEnabled (final r) = clipEnabled s"
    and "clipper_active (viewer (final r)) = clipper_active (viewer s)"
  unfolding r_def
  by (auto simp: loadIfc_try_def try_rejects_def try_statuses_def Let_def setStatus_def call_def
      updateClassCounts_run apply_fields split: promise.splits option.splits)

lemma reset_for_load_fields:
  "statusLog (reset_for_load e s) = statusLog s @ [''Loading IFC...'']"
  "status (reset_for_load e s) = ''Loading IFC...''"
  "properties (reset_for_load e s) = None"
  "urlLog (reset_for_load e s) = urlLog s @ [CreateObjectURL (e_objectURL e)]"
  "\<not> clipEnabled (reset_for_load e s)"
  "\<not> clipper_active (viewer (reset_for_load e s))"
  by (simp_all add: reset_for_load_def Let_def setStatus_def deleteAllPlanes_def call_def
      clear_fields split: option.splits)

lemma handleLoadIfc_run:
  assumes "viewerRef s"
  shows "\<exists>s'. handleLoadIfc e f s = Ok () s'
          \<and> statusLog s' = statusLog s @ ''Loading IFC...'' # try_statuses e f
                @ (if try_rejects e then [''Failed to load IFC.''] else [])
          \<and> status s' = last (statusLog s')
          \<and> properties s' = None
          \<and> urlLog s' = urlLog s @ [CreateObjectURL (e_objectURL e), RevokeObjectURL (e_objectURL e)]
          \<and> \<not> clipEnabled s' \<and> \<not> clipper_active (viewer s')"
proof (cases "loadIfc_try e f (e_objectURL e) (selectedClassType s) (reset_for_load e s)")
  case (Ok u s')
  with loadIfc_try_fields [of e f "selectedClassType s" "reset_for_load e s"] assms
  show ?thesis
    by (simp add: handleLoadIfc_def Let_def reset_for_load_fields)
next
  case (Err s')
  with loadIfc_try_fields [of e f "selectedClassType s" "reset_for_load e s"] assms
  show ?thesis
    by (simp add: handleLoadIfc_def Let_def reset_for_load_fields setStatus_def console_log_def)
qed

lemma v1_handleLoadIfc_run:
  assumes "v1_viewerRef t"
  shows "\<exists>t'. v1_handleLoadIfc e f t = Ok () t'
          \<and> v1_statusLog t' = v1_statusLog t @ ''Loading IFC...'' #
                (case e_loadIfcUrl e (e_objectURL e) of
                   Rejected \<Rightarrow> [''Failed to load IFC.'']
                 | Resolved None \<Rightarrow> [''Failed to load IFC.'']
                 | Resolved (Some model) \<Rightarrow> [''Loaded: '' @ file_name f])
          \<and> v1_status t' = last (v1_statusLog t')
          \<and> v1_properties t' = ''''
          \<and> v1_urlLog t' = v1_urlLog t @ [CreateObjectURL (e_objectURL e),
                                           RevokeObjectURL (e_objectURL e)]"
  using assms
  by (simp add: v1_handleLoadIfc_def v1_loadIfc_try_def Let_def v1_setStatus_def v1_call_def
      split: promise.splits option.splits)

text \<open>
  Claim C1. With the viewer in place, \<open>handleLoadIfc\<close> of either revision returns, and
  the first status it sets is \<^verbatim>\<open>Loading IFC...\<close>; the properties end up cleared; when the
  load rejects (or, in the second revision, resolves without a model; the first revision
  then fails inside its \<open>try\<close> block all the same) the last status is
  \<^verbatim>\<open>Failed to load IFC.\<close>; when it resolves with a model the next status set is
  \<^verbatim>\<open>Loaded: \<close> followed by the file name; and on every path exactly the object URL that
  was created is revoked.
\<close>

theorem handleLoadIfc_status_and_url:
  assumes "viewerRef s" and "v1_viewerRef t"
  shows "(\<exists>s'. handleLoadIfc e f s = Ok () s'
          \<and> statusLog s' = statusLog s @ ''Loading IFC...'' #
                (case e_loadIfcUrl e (e_objectURL e) of
                   Rejected \<Rightarrow> [''Failed to load IFC.'']
                 | Resolved None \<Rightarrow> [''Failed to load IFC.'']
                 | Resolved (Some model) \<Rightarrow>
                     (''Loaded: '' @ file_name f) #
                       (if counts_resolve e (m_modelID model) then []
                        else [''Failed to load IFC.'']))
          \<and> status s' = last (statusLog s')
          \<and> properties s' = None
          \<and> urlLog s' = urlLog s @ [CreateObjectURL (e_objectURL e),
                                     RevokeObjectURL (e_objectURL e)])
       \<and> (\<exists>t'. v1_handleLoadIfc e f t = Ok () t'
          \<and> v1_statusLog t' = v1_statusLog t @ ''Loading IFC...'' #
                (case e_loadIfcUrl e (e_objectURL e) of
                   Rejected \<Rightarrow> [''Failed to load IFC.'']
                 | Resolved None \<Rightarrow> [''Failed to load IFC.'']
                 | Resolved (Some model) \<Rightarrow> [''Loaded: '' @ file_name f])
          \<and> v1_status t' = last (v1_statusLog t')
          \<and> v1_properties t' = ''''
          \<and> v1_urlLog t' = v1_urlLog t @ [CreateObjectURL (e_objectURL e),
                                           RevokeObjectURL (e_objectURL e)])"
proof -
  from handleLoadIfc_run [OF assms(1), of e f]
  obtain s' where s': "handleLoadIfc e f s = Ok () s'"
    "statusLog s' = statusLog s @ ''Loading IFC...'' # try_statuses e f
                @ (if try_rejects e then [''Failed to load IFC.''] else [])"
    "status s' = last (statusLog s')" "properties s' = None"
    "urlLog s' = urlLog s @ [CreateObjectURL (e_objectURL e), RevokeObjectURL (e_objectURL e)]"
    by blast
  have "try_statuses e f @ (if try_rejects e then [''Failed to load IFC.''] else [])
        = (case e_loadIfcUrl e (e_objectURL e) of
                   Rejected \<Rightarrow> [''Failed to load IFC.'']
                 | Resolved None \<Rightarrow> [''Failed to load IFC.'']
                 | Resolved (Some model) \<Rightarrow>
                     (''Loaded: '' @ file_name f) #
                       (if counts_resolve e (m_modelID model) then []
                        else [''Failed to load IFC.'']))"
    by (simp add: try_statuses_def try_rejects_def split: promise.splits option.splits)
  with s' have "\<exists>s'. handleLoadIfc e f s = Ok () s'
          \<and> statusLog s' = statusLog s @ ''Loading IFC...'' #
                (case e_loadIfcUrl e (e_objectURL e) of
                   Rejected \<Rightarrow> [''Failed to load IFC.'']
                 | Resolved None \<Rightarrow> [''Failed to load IFC.'']
                 | Resolved (Some model) \<Rightarrow>
                     (''Loaded: '' @ file_name f) #
                       (if counts_resolve e (m_modelID model) then []
                        else [''Failed to load IFC.'']))
          \<and> status s' = last (statusLog s')
          \<and> properties s' = None
          \<and> urlLog s' = urlLog s @ [CreateObjectURL (e_objectURL e),
                                     RevokeObjectURL (e_objectURL e)]"
    by simp
  with v1_handleLoadIfc_run [OF assms(2), of e f] show ?thesis
    by blast
qed

lemma demo_counts_resolve: "counts_resolve demo_env 0"
  by (simp add: counts_resolve_def IFC_CLASS_LIST_def demo_env_def)

theorem handleLoadIfc_status_and_url_witness:
  "viewerRef loaded \<and> v1_viewerRef v1_mount
   \<and> (\<exists>s'. handleLoadIfc demo_env demo_file loaded = Ok () s'
         \<and> statusLog s' = [''Loading IFC...'', ''Loaded: a.ifc'']
         \<and> status s' = ''Loaded: a.ifc'' \<and> properties s' = None
         \<and> urlLog s' = [CreateObjectURL ''blob:a'', RevokeObjectURL ''blob:a''])
   \<and> (\<exists>t'. v1_handleLoadIfc demo_env demo_file v1_mount = Ok () t'
         \<and> v1_statusLog t' = [''Loading IFC...'', ''Loaded: a.ifc'']
         \<and> v1_status t' = ''Loaded: a.ifc'' \<and> v1_properties t' = ''''
         \<and> v1_urlLog t' = [CreateObjectURL ''blob:a'', RevokeObjectURL ''blob:a''])"
proof -
  have v: "viewerRef loaded" "statusLog loaded = []" "urlLog loaded = []"
    by (simp_all add: loaded_def started_def mount_def)
  have w: "v1_viewerRef v1_mount" "v1_statusLog v1_mount = []" "v1_urlLog v1_mount = []"
    by (simp_all add: v1_mount_def)
  have e: "e_objectURL demo_env = ''blob:a''"
    "e_loadIfcUrl demo_env ''blob:a'' = Resolved (Some demo_model)"
    by (simp_all add: demo_env_def)
  have m: "m_modelID demo_model = 0" "file_name demo_file = ''a.ifc''"
    by (simp_all add: demo_model_def demo_file_def)
  from handleLoadIfc_status_and_url [OF v(1) w(1), of demo_env demo_file]
  show ?thesis
    by (auto simp: v w e m demo_counts_resolve)
qed

subsection \<open>Clipping state\<close>


text \<open>
  Claim C7, as the code has it. After mounting the two flags agree. With the viewer in
  place: toggling sets both to the negation of \<open>clipper.active\<close>, so it flips both when they
  agree; \<open>Add plane\<close> forces both to true when a model is loaded and changes nothing when
  none is, so it keeps them equal; loading a file forces both to false.
\<close>

theorem clipEnabled_mirrors_clipper_active:
  assumes "viewerRef s"
  shows "clipEnabled (mount fresh ms) = clipper_active (viewer (mount fresh ms))
       \<and> clipEnabled (handleToggleClip s) = (\<not> clipper_active (viewer s))
       \<and> clipper_active (viewer (handleToggleClip s)) = (\<not> clipper_active (viewer s))
       \<and> (modelID s \<noteq> None \<longrightarrow>
            clipEnabled (handleAddPlane s) \<and> clipper_active (viewer (handleAddPlane s)))
       \<and> (modelID s = None \<longrightarrow> handleAddPlane s = s)
       \<and> (clipEnabled s = clipper_active (viewer s) \<longrightarrow>
            clipEnabled (handleAddPlane s) = clipper_active (viewer (handleAddPlane s)))
       \<and> \<not> clipEnabled (final (handleLoadIfc e f s))
       \<and> \<not> clipper_active (viewer (final (handleLoadIfc e f s)))"
proof -
  from handleLoadIfc_run [OF assms, of e f]
  have "\<not> clipEnabled (final (handleLoadIfc e f s))
       \<and> \<not> clipper_active (viewer (final (handleLoadIfc e f s)))"
    by auto
  with assms show ?thesis
    by (auto simp: mount_def handleToggleClip_def handleAddPlane_def Let_def call_def)
qed

theorem clipEnabled_mirrors_clipper_active_witness:
  "viewerRef loaded \<and> modelID loaded = Some 0
   \<and> clipEnabled (handleToggleClip loaded) = False
   \<and> clipper_active (viewer (handleToggleClip loaded)) = False
   \<and> clipEnabled (handleAddPlane (handleToggleClip loaded))
   \<and> clipper_active (viewer (handleAddPlane (handleToggleClip loaded)))
   \<and> \<not> clipEnabled (final (handleLoadIfc demo_env demo_file loaded))
   \<and> \<not> clipper_active (viewer (final (handleLoadIfc demo_env demo_file loaded)))"
proof -
  have v: "viewerRef loaded" "modelID loaded = Some 0" "clipper_active (viewer loaded)"
    by (simp_all add: loaded_def started_def mount_def)
  have t: "viewerRef (handleToggleClip loaded)" "modelID (handleToggleClip loaded) = Some 0"
    by (simp_all add: handleToggleClip_def Let_def v)
  from clipEnabled_mirrors_clipper_active [OF v(1), of demo_viewer "\<lambda>r. demo_material" demo_env demo_file]
    clipEnabled_mirrors_clipper_active [OF t(1), of demo_viewer "\<lambda>r. demo_material" demo_env demo_file]
  show ?thesis
    by (simp add: v t)
qed

text \<open>
  Claim C7 as it is written fails when no model is loaded: after the clipping has been
  switched off, \<open>Add plane\<close> leaves both flags false.
\<close>

theorem handleAddPlane_without_model:
  "modelID (handleToggleClip started) = None
   \<and> \<not> clipEnabled (handleAddPlane (handleToggleClip started))
   \<and> \<not> clipper_active (viewer (handleAddPlane (handleToggleClip started)))"
  by (simp add: started_def mount_def handleToggleClip_def handleAddPlane_def Let_def)

subsection \<open>Errors of the library\<close>




lemma loaded_fields:
  "viewerRef loaded" "modelID loaded = Some 0" "\<not> placingPlaneRef loaded"
  "status loaded = ''Loaded: a.ifc''" "statusLog loaded = []" "console loaded = []"
  "calls loaded = []" "properties loaded = None" "urlLog loaded = []"
  by (simp_all add: loaded_def started_def mount_def)



subsection \<open>Clicking an element\<close>

lemma pick_or_cast_run:
  assumes "e_pickIfcItem e = Resolved picked"
  shows "pick_or_cast e picked s =
     (resolved_element e, if picked = None then call CastRayIfc s else s)"
  using assms
  by (auto simp: pick_or_cast_def resolved_element_def split: option.splits)

lemma handleClick_closure_nothing:
  assumes "\<not> placingPlaneRef s" "e_pickIfcItem e = Resolved picked"
    and "resolved_element e = None"
  shows "\<exists>s' cs. handleClick_closure sel mid e s = Ok () s' \<and> properties s' = None
           \<and> calls s' = cs @ [PickIfcItem, CastRayIfc, UnpickIfcItems]"
proof -
  have r: "picked = None"
    using assms(2,3) by (auto simp: resolved_element_def split: option.splits)
  have p: "pick_or_cast e None u = (None, call CastRayIfc u)" for u
    using pick_or_cast_run [OF assms(2), of u] assms(3) r by simp
  show ?thesis
    using assms(1,2)
    by (simp add: handleClick_closure_def Let_def r p) (simp add: call_def)
qed

lemma unfade_material_properties:
  "properties (unfade_material r s) = properties s"
  by (simp add: unfade_material_def split: option.splits)

lemma restoreMeshTransparency_properties:
  "properties (restoreMeshTransparency msh s) = properties s"
proof -
  have "properties (fold unfade_material rs s) = properties s" for rs
    by (induction rs arbitrary: s) (simp_all add: unfade_material_properties)
  then show ?thesis by (simp add: restoreMeshTransparency_def)
qed

lemma stale_clear_properties:
  "properties (stale_clear sel mid s) = properties s"
  by (simp add: stale_clear_def clearClassHighlight_def Let_def call_def
      restoreMeshTransparency_properties split: option.splits)

lemma fetchProperties_fallback_value:
  "\<exists>s'. fetchProperties_fallback e m i s =
      Ok (case e_getItemProperties e m i True of
            Rejected \<Rightarrow> None
          | Resolved item \<Rightarrow>
              Some \<lparr>p_fields = (case item of None \<Rightarrow> [] | Some fs \<Rightarrow> fs),
                    p_psets = lookup_or_empty (e_getPropertySets e m i True),
                    p_mats = lookup_or_empty (e_getMaterialsProperties e m i True),
                    p_type = lookup_or_empty (e_getTypeProperties e m i True)\<rparr>) s'"
  by (auto simp: fetchProperties_fallback_def or_empty_def lookup_or_empty_def Let_def
      split: promise.splits prod.splits)

lemma fetchProperties_value:
  "\<exists>s'. fetchProperties e m i s =
      Ok (case e_getProperties e m i True True of
            Resolved (Some p) \<Rightarrow> Some p
          | _ \<Rightarrow>
           (case e_getItemProperties e m i True of
              Rejected \<Rightarrow> None
            | Resolved item \<Rightarrow>
                Some \<lparr>p_fields = (case item of None \<Rightarrow> [] | Some fs \<Rightarrow> fs),
                      p_psets = lookup_or_empty (e_getPropertySets e m i True),
                      p_mats = lookup_or_empty (e_getMaterialsProperties e m i True),
                      p_type = lookup_or_empty (e_getTypeProperties e m i True)\<rparr>)) s'"
proof (cases "e_getProperties e m i True True")
  case Rejected
  with fetchProperties_fallback_value
    [of e m i "console_log ''Failed to read IFC properties'' s"]
  show ?thesis by (simp add: fetchProperties_def)
next
  case (Resolved r)
  with fetchProperties_fallback_value [of e m i s]
  show ?thesis by (cases r) (simp_all add: fetchProperties_def)
qed

lemma handleClick_closure_element:
  assumes "\<not> placingPlaneRef s" "e_pickIfcItem e = Resolved picked"
    and "resolved_element e = Some (m, i)"
  shows "\<exists>s'. handleClick_closure sel mid e s = Ok () s'
     \<and> properties s' =
        (case e_getProperties e m i True True of
            Resolved (Some p) \<Rightarrow> Some p
          | _ \<Rightarrow>
           (case e_getItemProperties e m i True of
              Rejected \<Rightarrow> None
            | Resolved item \<Rightarrow>
                Some \<lparr>p_fields = (case item of None \<Rightarrow> [] | Some fs \<Rightarrow> fs),
                      p_psets = lookup_or_empty (e_getPropertySets e m i True),
                      p_mats = lookup_or_empty (e_getMaterialsProperties e m i True),
                      p_type = lookup_or_empty (e_getTypeProperties e m i True)\<rparr>))"
proof -
  let ?s2 = "if picked = None
     then call CastRayIfc (call PickIfcItem
            (stale_clear sel mid (s\<lparr>contextMenu := (contextMenu s)\<lparr>cm_visible := False\<rparr>\<rparr>)))
     else call PickIfcItem
            (stale_clear sel mid (s\<lparr>contextMenu := (contextMenu s)\<lparr>cm_visible := False\<rparr>\<rparr>))"
  from fetchProperties_value [of e m i ?s2]
  obtain s3 where f: "fetchProperties e m i ?s2 = Ok
       (case e_getProperties e m i True True of
            Resolved (Some p) \<Rightarrow> Some p
          | _ \<Rightarrow>
           (case e_getItemProperties e m i True of
              Rejected \<Rightarrow> None
            | Resolved item \<Rightarrow>
                Some \<lparr>p_fields = (case item of None \<Rightarrow> [] | Some fs \<Rightarrow> fs),
                      p_psets = lookup_or_empty (e_getPropertySets e m i True),
                      p_mats = lookup_or_empty (e_getMaterialsProperties e m i True),
                      p_type = lookup_or_empty (e_getTypeProperties e m i True)\<rparr>)) s3"
    by blast
  show ?thesis
    using assms f
    by (simp add: handleClick_closure_def Let_def pick_or_cast_run [OF assms(2)])
qed

lemma handleClick_closure_rejected:
  assumes "\<not> placingPlaneRef s" "e_pickIfcItem e = Rejected"
  shows "escaped (handleClick_closure sel mid e s)
     \<and> properties (final (handleClick_closure sel mid e s)) = properties s"
  using assms
  by (simp add: handleClick_closure_def Let_def call_def stale_clear_properties)

text \<open>
  Claim C3, as the code has it. A click outside plane placement.

  Picking resolves and an element is resolved: the second revision never fails, and
  stores what \<open>getProperties(modelID, id, true, true)\<close> resolves with when that is an
  object; when \<open>getProperties\<close> rejects or resolves with nothing it stores the object
  assembled from \<open>getItemProperties\<close> and the property sets, materials and type
  properties (each the empty list when its lookup rejects), or \<open>null\<close> when
  \<open>getItemProperties\<close> rejects too. The first revision stores the JSON text of whatever
  \<open>getProperties\<close> resolves with; when \<open>getProperties\<close> rejects the rejection escapes its
  handler and the properties state keeps its value.

  Picking resolves and no element is resolved: the properties state is reset (to the
  empty string in the first revision, to \<open>null\<close> in the second), and the second revision,
  after its ray cast, also unpicks the current selection. The first revision issues no
  unpick.

  Picking rejects: the rejection escapes the handler of either revision and the
  properties state keeps its value.
\<close>

theorem handleClick_properties:
  assumes "\<not> placingPlaneRef s"
  shows "(e_pickIfcItem e = Resolved picked \<longrightarrow>
           (\<forall>m i. resolved_element e = Some (m, i) \<longrightarrow>
              (\<exists>s'. handleClick_closure sel mid e s = Ok () s'
                 \<and> (\<forall>p. e_getProperties e m i True True = Resolved (Some p) \<longrightarrow>
                       properties s' = Some p)
                 \<and> (e_getProperties e m i True True = Rejected
                      \<or> e_getProperties e m i True True = Resolved None \<longrightarrow>
                       (\<forall>item. e_getItemProperties e m i True = Resolved item \<longrightarrow>
                          properties s' =
                            Some \<lparr>p_fields = (case item of None \<Rightarrow> [] | Some fs \<Rightarrow> fs),
                                  p_psets = lookup_or_empty (e_getPropertySets e m i True),
                                  p_mats = lookup_or_empty (e_getMaterialsProperties e m i True),
                                  p_type = lookup_or_empty (e_getTypeProperties e m i True)\<rparr>)
                     \<and> (e_getItemProperties e m i True = Rejected \<longrightarrow> properties s' = None))))
         \<and> (resolved_element e = None \<longrightarrow>
              (\<exists>s' cs. handleClick_closure sel mid e s = Ok () s' \<and> properties s' = None
                 \<and> calls s' = cs @ [PickIfcItem, CastRayIfc, UnpickIfcItems]))
         \<and> (\<forall>m i. picked = Some (m, i) \<longrightarrow>
              (\<forall>p. e_getProperties e m i True True = Resolved p \<longrightarrow>
                 (\<exists>t'. v1_handleClick e t = Ok () t' \<and> v1_properties t' = e_stringify e p))
              \<and> (e_getProperties e m i True True = Rejected \<longrightarrow>
                   escaped (v1_handleClick e t)
                   \<and> v1_properties (final (v1_handleClick e t)) = v1_properties t))
         \<and> (picked = None \<longrightarrow>
              (\<exists>t'. v1_handleClick e t = Ok () t' \<and> v1_properties t' = ''''
                 \<and> v1_calls t' = v1_calls t @ [PickIfcItem])))
       \<and> (e_pickIfcItem e = Rejected \<longrightarrow>
            escaped (handleClick_closure sel mid e s)
            \<and> properties (final (handleClick_closure sel mid e s)) = properties s
            \<and> escaped (v1_handleClick e t)
            \<and> v1_properties (final (v1_handleClick e t)) = v1_properties t)"
proof -
  have A: "\<exists>s'. handleClick_closure sel mid e s = Ok () s'
      \<and> (\<forall>p. e_getProperties e m i True True = Resolved (Some p) \<longrightarrow> properties s' = Some p)
      \<and> (e_getProperties e m i True True = Rejected
           \<or> e_getProperties e m i True True = Resolved None \<longrightarrow>
            (\<forall>item. e_getItemProperties e m i True = Resolved item \<longrightarrow>
               properties s' =
                 Some \<lparr>p_fields = (case item of None \<Rightarrow> [] | Some fs \<Rightarrow> fs),
                       p_psets = lookup_or_empty (e_getPropertySets e m i True),
                       p_mats = lookup_or_empty (e_getMaterialsProperties e m i True),
                       p_type = lookup_or_empty (e_getTypeProperties e m i True)\<rparr>)
          \<and> (e_getItemProperties e m i True = Rejected \<longrightarrow> properties s' = None))"
    if "e_pickIfcItem e = Resolved picked" "resolved_element e = Some (m, i)" for m i
  proof -
    from handleClick_closure_element [OF assms that, of sel mid]
    obtain s' where "handleClick_closure sel mid e s = Ok () s'"
      and "properties s' =
        (case e_getProperties e m i True True of
            Resolved (Some p) \<Rightarrow> Some p
          | _ \<Rightarrow>
           (case e_getItemProperties e m i True of
              Rejected \<Rightarrow> None
            | Resolved item \<Rightarrow>
                Some \<lparr>p_fields = (case item of None \<Rightarrow> [] | Some fs \<Rightarrow> fs),
                      p_psets = lookup_or_empty (e_getPropertySets e m i True),
                      p_mats = lookup_or_empty (e_getMaterialsProperties e m i True),
                      p_type = lookup_or_empty (e_getTypeProperties e m i True)\<rparr>))"
      by blast
    then show ?thesis
      by (auto split: promise.splits option.splits)
  qed
  have B: "\<exists>s' cs. handleClick_closure sel mid e s = Ok () s' \<and> properties s' = None
        \<and> calls s' = cs @ [PickIfcItem, CastRayIfc, UnpickIfcItems]"
    if "e_pickIfcItem e = Resolved picked" "resolved_element e = None"
    using handleClick_closure_nothing [OF assms that] .
  have C1: "\<exists>t'. v1_handleClick e t = Ok () t' \<and> v1_properties t' = e_stringify e p"
    if "e_pickIfcItem e = Resolved picked" "picked = Some (m, i)"
      "e_getProperties e m i True True = Resolved p" for m i p
    using that by (simp add: v1_handleClick_def)
  have C2: "escaped (v1_handleClick e t)
      \<and> v1_properties (final (v1_handleClick e t)) = v1_properties t"
    if "e_pickIfcItem e = Resolved picked" "picked = Some (m, i)"
      "e_getProperties e m i True True = Rejected" for m i
    using that by (simp add: v1_handleClick_def v1_call_def)
  have D: "\<exists>t'. v1_handleClick e t = Ok () t' \<and> v1_properties t' = ''''
        \<and> v1_calls t' = v1_calls t @ [PickIfcItem]"
    if "e_pickIfcItem e = Resolved picked" "picked = None"
    using that by (simp add: v1_handleClick_def v1_call_def)
  have E: "escaped (handleClick_closure sel mid e s)
        \<and> properties (final (handleClick_closure sel mid e s)) = properties s
        \<and> escaped (v1_handleClick e t)
        \<and> v1_properties (final (v1_handleClick e t)) = v1_properties t"
    if "e_pickIfcItem e = Rejected"
    using handleClick_closure_rejected [OF assms that, of sel mid] that
    by (simp add: v1_handleClick_def v1_call_def)
  from A B C1 C2 D E show ?thesis by blast
qed

theorem handleClick_properties_witness:
  "\<not> placingPlaneRef loaded
   \<and> e_pickIfcItem demo_env = Resolved (Some (0, 2))
   \<and> e_getProperties demo_env 0 2 True True = Resolved (Some demo_props)
   \<and> (\<exists>s'. handleClick demo_env loaded = Ok () s' \<and> properties s' = Some demo_props)
   \<and> (\<exists>t'. v1_handleClick demo_env v1_loaded = Ok () t' \<and> v1_properties t' = ''{...}'')
   \<and> e_pickIfcItem fallback_env = Resolved (Some (0, 2))
   \<and> e_getProperties fallback_env 0 2 True True = Rejected
   \<and> (\<exists>s'. handleClick fallback_env loaded = Ok () s'
         \<and> properties s' = Some \<lparr>p_fields = [(''Name'', ''Wall-1'')],
                                   p_psets = [''Pset_WallCommon''], p_mats = [], p_type = []\<rparr>)
   \<and> escaped (v1_handleClick fallback_env v1_loaded)
   \<and> v1_properties (final (v1_handleClick fallback_env v1_loaded)) = ''''
   \<and> e_pickIfcItem no_props_env = Resolved (Some (0, 2))
   \<and> e_getItemProperties no_props_env 0 2 True = Rejected
   \<and> (\<exists>s'. handleClick no_props_env loaded = Ok () s' \<and> properties s' = None)
   \<and> e_pickIfcItem none_env = Resolved None
   \<and> (\<exists>s' cs. handleClick none_env loaded = Ok () s' \<and> properties s' = None
         \<and> calls s' = cs @ [PickIfcItem, CastRayIfc, UnpickIfcItems])
   \<and> (\<exists>t'. v1_handleClick none_env v1_loaded = Ok () t' \<and> v1_properties t' = ''''
         \<and> v1_calls t' = [PickIfcItem])
   \<and> e_pickIfcItem no_pick_env = Rejected
   \<and> escaped (handleClick no_pick_env loaded)
   \<and> properties (final (handleClick no_pick_env loaded)) = None
   \<and> escaped (v1_handleClick no_pick_env v1_loaded)
   \<and> v1_properties (final (v1_handleClick no_pick_env v1_loaded)) = ''''"
proof -
  have a: "e_pickIfcItem demo_env = Resolved (Some (0, 2))"
    "resolved_element demo_env = Some (0, 2)"
    "e_getProperties demo_env 0 2 True True = Resolved (Some demo_props)"
    "e_stringify demo_env (Some demo_props) = ''{...}''"
    by (simp_all add: demo_env_def resolved_element_def)
  have f: "e_pickIfcItem fallback_env = Resolved (Some (0, 2))"
    "resolved_element fallback_env = Some (0, 2)"
    "e_getProperties fallback_env 0 2 True True = Rejected"
    "e_getItemProperties fallback_env 0 2 True = Resolved (Some [(''Name'', ''Wall-1'')])"
    "lookup_or_empty (e_getPropertySets fallback_env 0 2 True) = [''Pset_WallCommon'']"
    "lookup_or_empty (e_getMaterialsProperties fallback_env 0 2 True) = []"
    "lookup_or_empty (e_getTypeProperties fallback_env 0 2 True) = []"
    by (simp_all add: fallback_env_def demo_env_def resolved_element_def lookup_or_empty_def)
  have n: "e_pickIfcItem no_props_env = Resolved (Some (0, 2))"
    "resolved_element no_props_env = Some (0, 2)"
    "e_getProperties no_props_env 0 2 True True = Rejected"
    "e_getItemProperties no_props_env 0 2 True = Rejected"
    by (simp_all add: no_props_env_def demo_env_def resolved_element_def)
  have b: "e_pickIfcItem none_env = Resolved None" "resolved_element none_env = None"
    by (simp_all add: none_env_def demo_env_def resolved_element_def)
  have r: "e_pickIfcItem no_pick_env = Rejected"
    by (simp add: no_pick_env_def demo_env_def)
  have c: "v1_calls v1_loaded = []" "v1_properties v1_loaded = ''''"
    by (simp_all add: v1_loaded_def v1_mount_def)
  from handleClick_properties
    [OF loaded_fields(3), of demo_env "Some (0, 2)" None None v1_loaded] a
  have 1: "(\<exists>s'. handleClick demo_env loaded = Ok () s' \<and> properties s' = Some demo_props)
      \<and> (\<exists>t'. v1_handleClick demo_env v1_loaded = Ok () t' \<and> v1_properties t' = ''{...}'')"
    by (simp add: handleClick_def)
  from handleClick_properties
    [OF loaded_fields(3), of fallback_env "Some (0, 2)" None None v1_loaded] f c
  have 2: "(\<exists>s'. handleClick fallback_env loaded = Ok () s'
         \<and> properties s' = Some \<lparr>p_fields = [(''Name'', ''Wall-1'')],
                                   p_psets = [''Pset_WallCommon''], p_mats = [], p_type = []\<rparr>)
      \<and> escaped (v1_handleClick fallback_env v1_loaded)
      \<and> v1_properties (final (v1_handleClick fallback_env v1_loaded)) = ''''"
    by (simp add: handleClick_def)
  from handleClick_properties
    [OF loaded_fields(3), of no_props_env "Some (0, 2)" None None v1_loaded] n
  have 3: "\<exists>s'. handleClick no_props_env loaded = Ok () s' \<and> properties s' = None"
    by (simp add: handleClick_def)
  from handleClick_properties
    [OF loaded_fields(3), of none_env None None None v1_loaded] b c
  have 4: "(\<exists>s' cs. handleClick none_env loaded = Ok () s' \<and> properties s' = None
         \<and> calls s' = cs @ [PickIfcItem, CastRayIfc, UnpickIfcItems])
      \<and> (\<exists>t'. v1_handleClick none_env v1_loaded = Ok () t' \<and> v1_properties t' = ''''
         \<and> v1_calls t' = [PickIfcItem])"
    by (simp add: handleClick_def)
  from handleClick_properties
    [OF loaded_fields(3), of no_pick_env None None None v1_loaded] r c
  have 5: "escaped (handleClick no_pick_env loaded)
      \<and> properties (final (handleClick no_pick_env loaded)) = None
      \<and> escaped (v1_handleClick no_pick_env v1_loaded)
      \<and> v1_properties (final (v1_handleClick no_pick_env v1_loaded)) = ''''"
    by (simp add: handleClick_def loaded_fields)
  from 1 2 3 4 5 a(1,3) f(1,3) n(1,4) b(1) r show ?thesis
    by (simp add: loaded_fields)
qed

text \<open>
  Claim C3 as it is written fails twice. In the first revision a click that resolves no
  element resets the properties and issues no unpick. And when every property lookup of
  the library rejects, a click that resolves wall 2 stores no properties: the second
  revision sets them to \<open>null\<close>, and in the first revision the rejection escapes the
  handler with the properties state untouched.
\<close>

theorem v1_handleClick_no_unpick:
  "e_pickIfcItem none_env = Resolved None
   \<and> v1_properties (final (v1_handleClick none_env v1_loaded)) = ''''
   \<and> v1_calls (final (v1_handleClick none_env v1_loaded)) = [PickIfcItem]
   \<and> UnpickIfcItems \<notin> set (v1_calls (final (v1_handleClick none_env v1_loaded)))
   \<and> resolved_element no_props_env = Some (0, 2)
   \<and> \<not> escaped (handleClick no_props_env loaded)
   \<and> properties (final (handleClick no_props_env loaded)) = None
   \<and> escaped (v1_handleClick no_props_env v1_loaded)
   \<and> v1_properties (final (v1_handleClick no_props_env v1_loaded)) = ''''"
  by (simp add: none_env_def no_props_env_def demo_env_def resolved_element_def
      v1_handleClick_def v1_loaded_def v1_mount_def v1_call_def
      handleClick_def handleClick_closure_def Let_def loaded_fields stale_clear_def
      pick_or_cast_def call_def fetchProperties_def fetchProperties_fallback_def
      console_log_def)

subsection \<open>Type filters of the first revision\<close>

lemma v1_toggleFilter_run:
  assumes "v1_viewerRef s" "v1_modelID s = Some mid"
    and "e_getAllItemsOfType e mid t False = Resolved items"
  shows "v1_toggleFilter e t s =
     Ok () (s\<lparr>v1_calls := v1_calls s @
                 [if v1_filterState s t then ShowItems mid items else HideItems mid items],
               v1_hiddenTypes := (v1_hiddenTypes s)(t \<mapsto> \<not> v1_filterState s t)\<rparr>)"
  using assms by (simp add: v1_toggleFilter_def Let_def v1_call_def)

text \<open>
  Claim C5. In the first revision, with the viewer and a model in place and the library
  answering the lookup of the items of a type: toggling a filter that is not marked hidden
  calls \<open>hideItems\<close> on exactly these items and marks the type hidden; toggling one that is
  marked hidden calls \<open>showItems\<close> on them and marks it visible; the flags of the other
  types stay; and a second toggle brings the flag back to its prior value. This holds for
  every type, the six of \<open>FILTERS\<close> among them.
\<close>

theorem toggleFilter_involution:
  assumes "v1_viewerRef s" and "v1_modelID s = Some mid"
    and "e_getAllItemsOfType e mid t False = Resolved items"
    and "e_getAllItemsOfType e' mid t False = Resolved items'"
  shows "\<exists>s1 s2. v1_toggleFilter e t s = Ok () s1 \<and> v1_toggleFilter e' t s1 = Ok () s2
     \<and> v1_filterState s1 t = (\<not> v1_filterState s t)
     \<and> v1_calls s1 = v1_calls s @
          [if v1_filterState s t then ShowItems mid items else HideItems mid items]
     \<and> v1_calls s2 = v1_calls s1 @
          [if v1_filterState s t then HideItems mid items' else ShowItems mid items']
     \<and> v1_filterState s2 t = v1_filterState s t
     \<and> (\<forall>u. u \<noteq> t \<longrightarrow> v1_filterState s1 u = v1_filterState s u
                        \<and> v1_filterState s2 u = v1_filterState s u)"
proof -
  let ?s1 = "s\<lparr>v1_calls := v1_calls s @
                 [if v1_filterState s t then ShowItems mid items else HideItems mid items],
               v1_hiddenTypes := (v1_hiddenTypes s)(t \<mapsto> \<not> v1_filterState s t)\<rparr>"
  have 1: "v1_toggleFilter e t s = Ok () ?s1"
    by (rule v1_toggleFilter_run [OF assms(1,2,3)])
  have v: "v1_viewerRef ?s1" "v1_modelID ?s1 = Some mid"
    using assms(1,2) by simp_all
  have f: "v1_filterState ?s1 t = (\<not> v1_filterState s t)"
    by (simp add: v1_filterState_def)
  have 2: "\<exists>s2. v1_toggleFilter e' t ?s1 = Ok () s2
     \<and> v1_calls s2 = v1_calls ?s1 @
          [if v1_filterState s t then HideItems mid items' else ShowItems mid items']
     \<and> v1_filterState s2 t = v1_filterState s t
     \<and> (\<forall>u. u \<noteq> t \<longrightarrow> v1_filterState s2 u = v1_filterState s u)"
    unfolding v1_toggleFilter_run [OF v assms(4)] f
    by (simp add: v1_filterState_def)
  have 3: "\<forall>u. u \<noteq> t \<longrightarrow> v1_filterState ?s1 u = v1_filterState s u"
    by (simp add: v1_filterState_def)
  from 2 obtain s2 where s2: "v1_toggleFilter e' t ?s1 = Ok () s2"
    "v1_calls s2 = v1_calls ?s1 @
          [if v1_filterState s t then HideItems mid items' else ShowItems mid items']"
    "v1_filterState s2 t = v1_filterState s t"
    "\<forall>u. u \<noteq> t \<longrightarrow> v1_filterState s2 u = v1_filterState s u"
    by blast
  have c: "v1_calls ?s1 = v1_calls s @
          [if v1_filterState s t then ShowItems mid items else HideItems mid items]"
    by simp
  from 1 s2 3 f c show ?thesis
    by blast
qed

theorem toggleFilter_involution_witness:
  "v1_viewerRef v1_loaded \<and> v1_modelID v1_loaded = Some 0
   \<and> (''Walls'', IFCWALL) \<in> set FILTERS
   \<and> e_getAllItemsOfType demo_env 0 IFCWALL False = Resolved [ItemNumber 1, ItemNumber 2]
   \<and> (\<exists>s1 s2. v1_toggleFilter demo_env IFCWALL v1_loaded = Ok () s1
         \<and> v1_toggleFilter demo_env IFCWALL s1 = Ok () s2
         \<and> v1_filterState s1 IFCWALL
         \<and> v1_calls s1 = [HideItems 0 [ItemNumber 1, ItemNumber 2]]
         \<and> v1_calls s2 = [HideItems 0 [ItemNumber 1, ItemNumber 2],
                           ShowItems 0 [ItemNumber 1, ItemNumber 2]]
         \<and> \<not> v1_filterState s2 IFCWALL)"
proof -
  have a: "v1_viewerRef v1_loaded" "v1_modelID v1_loaded = Some 0"
    "v1_calls v1_loaded = []" "\<not> v1_filterState v1_loaded IFCWALL"
    by (simp_all add: v1_loaded_def v1_mount_def v1_filterState_def)
  have b: "e_getAllItemsOfType demo_env 0 IFCWALL False = Resolved [ItemNumber 1, ItemNumber 2]"
    by (simp add: demo_env_def demo_items_def)
  have c: "(''Walls'', IFCWALL) \<in> set FILTERS"
    by (simp add: FILTERS_def)
  from toggleFilter_involution [OF a(1,2) b b] a(3,4)
  have "\<exists>s1 s2. v1_toggleFilter demo_env IFCWALL v1_loaded = Ok () s1
         \<and> v1_toggleFilter demo_env IFCWALL s1 = Ok () s2
         \<and> v1_filterState s1 IFCWALL
         \<and> v1_calls s1 = [HideItems 0 [ItemNumber 1, ItemNumber 2]]
         \<and> v1_calls s2 = [HideItems 0 [ItemNumber 1, ItemNumber 2],
                           ShowItems 0 [ItemNumber 1, ItemNumber 2]]
         \<and> \<not> v1_filterState s2 IFCWALL"
    by auto
  with a b c show ?thesis by simp
qed

subsection \<open>Placing and clearing planes\<close>

lemma nth_last_append:
  "ys \<noteq> [] \<Longrightarrow> (xs @ ys) ! (length xs + length ys - Suc 0) = last ys"
  by (cases ys rule: rev_cases) (auto simp: nth_append)

lemma place_plane_run:
  "calls (place_plane e s) = calls s @ [CreatePlane]"
  "clipper_planes (viewer (place_plane e s)) = clipper_planes (viewer s) @ e_createPlane e"
  "properties (place_plane e s) = properties s"
  "selectedItemRef (place_plane e s) = selectedItemRef s"
  "\<not> placingPlaneRef (place_plane e s)" "\<not> placingPlane (place_plane e s)"
  by (simp_all add: place_plane_def createPlane_def style_plane_def call_def Let_def
      split: option.splits)

lemma place_plane_styled:
  assumes "e_createPlane e \<noteq> []"
    and "first_material (planeMesh (last (e_createPlane e))) = Some r"
    and "color (materials s r) \<noteq> None" and "planeGridRef s \<noteq> None"
  shows "color (materials (place_plane e s) r) = Some 0x2f66c7
       \<and> opacity (materials (place_plane e s) r) = Some 0.25
       \<and> transparent (materials (place_plane e s) r) = Some True
       \<and> mat_map (materials (place_plane e s) r) = Some PlaneGridTexture
       \<and> needsUpdate (materials (place_plane e s) r)"
  using assms
  by (auto simp: place_plane_def createPlane_def style_plane_def call_def Let_def
      nth_last_append)

text \<open>
  Claim C8, as the code has it. With the viewer and a model in place, \<open>Add plane\<close> enters
  plane placement. The next click on the canvas then returns after exactly one call of
  \<open>createPlane\<close> and no other library call: no picking, no ray cast, no unpick, and the
  properties and the right-click selection stay as they were. The planes it finds
  afterwards are the old ones followed by what that one call appended, so at most one
  more when the library appends at most one per call. When a plane was appended and the
  first material of the last plane has a colour, that material gets the blue colour, the
  opacity 0.25 and the grid texture. The click always leaves plane placement. \<open>Clear
  planes\<close> calls \<open>deleteAllPlanes\<close>, which leaves no plane, and leaves plane placement.
\<close>

theorem plane_placement_click:
  assumes "viewerRef s" and "modelID s \<noteq> None" and "viewerRef u"
  shows "placingPlaneRef (handleAddPlane s) \<and> placingPlane (handleAddPlane s)
     \<and> (\<exists>s2. handleClick_closure sel mid e (handleAddPlane s) = Ok () s2
          \<and> calls s2 = calls (handleAddPlane s) @ [CreatePlane]
          \<and> clipper_planes (viewer s2) = clipper_planes (viewer s) @ e_createPlane e
          \<and> (length (e_createPlane e) \<le> 1 \<longrightarrow>
                length (clipper_planes (viewer s2)) \<le> Suc (length (clipper_planes (viewer s))))
          \<and> properties s2 = properties s \<and> selectedItemRef s2 = selectedItemRef s
          \<and> \<not> placingPlaneRef s2 \<and> \<not> placingPlane s2
          \<and> (\<forall>r. e_createPlane e \<noteq> []
                 \<and> first_material (planeMesh (last (e_createPlane e))) = Some r
                 \<and> color (materials s r) \<noteq> None \<and> planeGridRef s \<noteq> None \<longrightarrow>
               color (materials s2 r) = Some 0x2f66c7
               \<and> opacity (materials s2 r) = Some 0.25
               \<and> transparent (materials s2 r) = Some True
               \<and> mat_map (materials s2 r) = Some PlaneGridTexture
               \<and> needsUpdate (materials s2 r)))
     \<and> calls (handleClearPlanes u) = calls u @ [DeleteAllPlanes]
     \<and> clipper_planes (viewer (handleClearPlanes u)) = []
     \<and> \<not> placingPlaneRef (handleClearPlanes u) \<and> \<not> placingPlane (handleClearPlanes u)"
proof -
  let ?a = "handleAddPlane s"
  let ?c = "?a\<lparr>contextMenu := (contextMenu ?a)\<lparr>cm_visible := False\<rparr>\<rparr>"
  have a: "placingPlaneRef ?a" "placingPlane ?a" "viewer ?a = (viewer s)\<lparr>clipper_active := True\<rparr>"
    "properties ?a = properties s" "selectedItemRef ?a = selectedItemRef s"
    "materials ?a = materials s" "planeGridRef ?a = planeGridRef s"
    using assms(1,2) by (auto simp: handleAddPlane_def Let_def call_def)
  have c: "handleClick_closure sel mid e ?a = Ok () (place_plane e ?c)"
    using a(1) by (simp add: handleClick_closure_def Let_def)
  have s: "\<forall>r. e_createPlane e \<noteq> []
                 \<and> first_material (planeMesh (last (e_createPlane e))) = Some r
                 \<and> color (materials s r) \<noteq> None \<and> planeGridRef s \<noteq> None \<longrightarrow>
               color (materials (place_plane e ?c) r) = Some 0x2f66c7
               \<and> opacity (materials (place_plane e ?c) r) = Some 0.25
               \<and> transparent (materials (place_plane e ?c) r) = Some True
               \<and> mat_map (materials (place_plane e ?c) r) = Some PlaneGridTexture
               \<and> needsUpdate (materials (place_plane e ?c) r)"
    using place_plane_styled [of e _ ?c] by (simp add: a)
  have d: "calls (handleClearPlanes u) = calls u @ [DeleteAllPlanes]"
    "clipper_planes (viewer (handleClearPlanes u)) = []"
    "\<not> placingPlaneRef (handleClearPlanes u)" "\<not> placingPlane (handleClearPlanes u)"
    using assms(3) by (simp_all add: handleClearPlanes_def deleteAllPlanes_def call_def)
  from a(1,2) c s d show ?thesis
    by (simp add: place_plane_run a)
qed

theorem plane_placement_click_witness:
  "viewerRef loaded \<and> modelID loaded = Some 0
   \<and> e_createPlane demo_env = [\<lparr>planeMesh = OneMaterial (LibMaterial 9)\<rparr>]
   \<and> placingPlaneRef (handleAddPlane loaded)
   \<and> (\<exists>s2. handleClick demo_env (handleAddPlane loaded) = Ok () s2
         \<and> calls s2 = [UnPrepickIfcItems, UnpickIfcItems, CreatePlane]
         \<and> clipper_planes (viewer s2) = [\<lparr>planeMesh = OneMaterial (LibMaterial 9)\<rparr>]
         \<and> properties s2 = None
         \<and> \<not> placingPlaneRef s2 \<and> \<not> placingPlane s2
         \<and> color (materials s2 (LibMaterial 9)) = Some 0x2f66c7
         \<and> opacity (materials s2 (LibMaterial 9)) = Some 0.25
         \<and> mat_map (materials s2 (LibMaterial 9)) = Some PlaneGridTexture)
   \<and> clipper_planes (viewer (handleClearPlanes loaded)) = []
   \<and> \<not> placingPlaneRef (handleClearPlanes loaded)"
proof -
  have a: "e_createPlane demo_env = [\<lparr>planeMesh = OneMaterial (LibMaterial 9)\<rparr>]"
    by (simp add: demo_env_def)
  have b: "clipper_planes (viewer loaded) = []" "selectedItemRef loaded = None"
    "color (materials loaded (LibMaterial 9)) = Some 0xffffff" "planeGridRef loaded \<noteq> None"
    by (simp_all add: loaded_def started_def mount_def demo_viewer_def demo_material_def)
  have c: "calls (handleAddPlane loaded) = [UnPrepickIfcItems, UnpickIfcItems]"
    by (simp add: handleAddPlane_def loaded_fields Let_def call_def)
  have d: "first_material (OneMaterial (LibMaterial 9)) = Some (LibMaterial 9)"
    by (simp add: first_material_def)
  have m: "modelID loaded \<noteq> None"
    by (simp add: loaded_fields)
  from plane_placement_click [OF loaded_fields(1) m loaded_fields(1), of None None demo_env]
  show ?thesis
    by (auto simp: a b c d loaded_fields handleClick_def)
qed

text \<open>
  Claim C8 as it is written fails when no model is loaded: \<open>Add plane\<close> returns at its
  guard without entering plane placement, and the next click runs the selection path
  (picking, ray cast, unpick) and creates no plane.
\<close>

theorem click_after_add_plane_without_model:
  "modelID started = None
   \<and> \<not> placingPlaneRef (handleAddPlane started)
   \<and> calls (final (handleClick none_env (handleAddPlane started)))
        = [PickIfcItem, CastRayIfc, UnpickIfcItems]"
  by (simp add: started_def mount_def handleAddPlane_def handleClick_def
      handleClick_closure_def Let_def stale_clear_def none_env_def demo_env_def
      pick_or_cast_def call_def)

subsection \<open>Class highlight\<close>

lemma unfade_material_shape: "\<exists>m. unfade_material r s = s\<lparr>materials := m\<rparr>"
proof (cases "transparencyCacheRef s r")
  case None
  then have "unfade_material r s = s\<lparr>materials := materials s\<rparr>"
    by (simp add: unfade_material_def)
  then show ?thesis by (rule exI [of _ "materials s"])
next
  case (Some c)
  then have "unfade_material r s
      = s\<lparr>materials := (materials s)(r := unfaded c (materials s r))\<rparr>"
    by (simp add: unfade_material_def)
  then show ?thesis by (rule exI [of _ "(materials s)(r := unfaded c (materials s r))"])
qed

lemma unfade_fold_shape: "\<exists>m. fold unfade_material rs s = s\<lparr>materials := m\<rparr>"
proof (induction rs arbitrary: s)
  case Nil
  have "fold unfade_material [] s = s\<lparr>materials := materials s\<rparr>" by simp
  then show ?case by (rule exI [of _ "materials s"])
next
  case (Cons r rs)
  from unfade_material_shape obtain m1 where m1: "unfade_material r s = s\<lparr>materials := m1\<rparr>"
    by blast
  from Cons [of "s\<lparr>materials := m1\<rparr>"] obtain m where
    "fold unfade_material rs (s\<lparr>materials := m1\<rparr>) = s\<lparr>materials := m1\<rparr>\<lparr>materials := m\<rparr>"
    by blast
  then have "fold unfade_material (r # rs) s = s\<lparr>materials := m\<rparr>"
    by (simp add: m1)
  then show ?case by (rule exI [of _ m])
qed

lemma restoreMeshTransparency_shape:
  "\<exists>m. restoreMeshTransparency msh s = s\<lparr>materials := m\<rparr>"
  by (simp add: restoreMeshTransparency_def unfade_fold_shape)

lemma restoreMeshTransparency_materials:
  "materials (restoreMeshTransparency msh s) r =
     (if r \<in> set (material_list (mesh_material_of msh))
      then (case transparencyCacheRef s r of
              None \<Rightarrow> materials s r
            | Some c \<Rightarrow> unfaded c (materials s r))
      else materials s r)"
  by (simp add: restoreMeshTransparency_def unfade_fold_materials)

lemma getDisplayMesh_cong:
  "visibleSubsetRef s' = visibleSubsetRef s \<Longrightarrow> viewer s' = viewer s
     \<Longrightarrow> getDisplayMesh mid s' = getDisplayMesh mid s"
  by (simp add: getDisplayMesh_def split: option.splits)

text \<open>What \<open>clearClassHighlight\<close> does, field by field.\<close>

lemma clearClassHighlight_run:
  "highlightSubsetRef (clearClassHighlight mid s) = None
   \<and> selectedClassType (clearClassHighlight mid s) = None
   \<and> transparencyCacheRef (clearClassHighlight mid s) = transparencyCacheRef s
   \<and> highlightMaterialRef (clearClassHighlight mid s) = highlightMaterialRef s
   \<and> typeCacheRef (clearClassHighlight mid s) = typeCacheRef s
   \<and> calls (clearClassHighlight mid s) = calls s @
       (if highlightSubsetRef s \<noteq> None
        then [RemoveSubset mid (highlightMaterialRef s) ''class-highlight''] else [])
   \<and> materials (clearClassHighlight mid s) r =
       (case getDisplayMesh mid s of
          None \<Rightarrow> materials s r
        | Some target \<Rightarrow>
            if r \<in> set (material_list (mesh_material_of target))
            then (case transparencyCacheRef s r of
                    None \<Rightarrow> materials s r
                  | Some c \<Rightarrow> unfaded c (materials s r))
            else materials s r)"
proof -
  let ?s1 = "(if highlightSubsetRef s \<noteq> None
               then (call (RemoveSubset mid (highlightMaterialRef s) ''class-highlight'') s)
                    \<lparr>highlightSubsetRef := None\<rparr>
               else s)"
  have d: "getDisplayMesh mid ?s1 = getDisplayMesh mid s"
    by (rule getDisplayMesh_cong) (simp_all add: call_def)
  have f: "highlightSubsetRef ?s1 = None" "transparencyCacheRef ?s1 = transparencyCacheRef s"
    "highlightMaterialRef ?s1 = highlightMaterialRef s" "typeCacheRef ?s1 = typeCacheRef s"
    "materials ?s1 = materials s"
    "calls ?s1 = calls s @ (if highlightSubsetRef s \<noteq> None
      then [RemoveSubset mid (highlightMaterialRef s) ''class-highlight''] else [])"
    by (simp_all add: call_def)
  show ?thesis
  proof (cases "getDisplayMesh mid s")
    case None
    have "clearClassHighlight mid s = ?s1\<lparr>selectedClassType := None\<rparr>"
      by (simp only: clearClassHighlight_def Let_def d None option.case)
    then show ?thesis
      using f by (simp add: None)
  next
    case (Some target)
    from restoreMeshTransparency_shape [of target ?s1] obtain m where
      m: "restoreMeshTransparency target ?s1 = ?s1\<lparr>materials := m\<rparr>" by blast
    have "m r = materials (restoreMeshTransparency target ?s1) r"
      by (subst m) simp
    then have mm: "m r = (if r \<in> set (material_list (mesh_material_of target))
            then (case transparencyCacheRef s r of
                    None \<Rightarrow> materials s r
                  | Some c \<Rightarrow> unfaded c (materials s r))
            else materials s r)"
      by (simp only: restoreMeshTransparency_materials f)
    have "clearClassHighlight mid s = ?s1\<lparr>materials := m, selectedClassType := None\<rparr>"
      by (simp only: clearClassHighlight_def Let_def d Some option.case m)
    then show ?thesis
      using f mm by (simp add: Some)
  qed
qed

lemma fade_material_shape:
  "\<exists>c m. fade_material op r s = s\<lparr>transparencyCacheRef := c, materials := m\<rparr>"
proof -
  have "fade_material op r s =
     s\<lparr>transparencyCacheRef := transparencyCacheRef (fade_material op r s),
       materials := materials (fade_material op r s)\<rparr>"
    by (simp add: fade_material_def Let_def)
  then show ?thesis
    by (rule exI [of _ "transparencyCacheRef (fade_material op r s)",
          OF exI [of _ "materials (fade_material op r s)"]])
qed

lemma fade_fold_shape:
  "\<exists>c m. fold (fade_material op) rs s = s\<lparr>transparencyCacheRef := c, materials := m\<rparr>"
proof (induction rs arbitrary: s)
  case Nil
  have "fold (fade_material op) [] s
      = s\<lparr>transparencyCacheRef := transparencyCacheRef s, materials := materials s\<rparr>"
    by simp
  then show ?case
    by (rule exI [of _ "transparencyCacheRef s", OF exI [of _ "materials s"]])
next
  case (Cons r rs)
  from fade_material_shape obtain c1 m1 where
    1: "fade_material op r s = s\<lparr>transparencyCacheRef := c1, materials := m1\<rparr>"
    by blast
  from Cons [of "s\<lparr>transparencyCacheRef := c1, materials := m1\<rparr>"] obtain c m where
    "fold (fade_material op) rs (s\<lparr>transparencyCacheRef := c1, materials := m1\<rparr>)
       = s\<lparr>transparencyCacheRef := c1, materials := m1\<rparr>
          \<lparr>transparencyCacheRef := c, materials := m\<rparr>"
    by blast
  then have "fold (fade_material op) (r # rs) s = s\<lparr>transparencyCacheRef := c, materials := m\<rparr>"
    by (simp add: 1)
  then show ?case
    by (rule exI [of _ c, OF exI [of _ m]])
qed

lemma setMeshTransparency_shape:
  "\<exists>c m. setMeshTransparency msh op s = s\<lparr>transparencyCacheRef := c, materials := m\<rparr>"
  by (simp add: setMeshTransparency_def fade_fold_shape)

lemma setMeshTransparency_materials:
  "materials (setMeshTransparency msh op s) r =
     (if r \<in> set (material_list (mesh_material_of msh)) then faded op (materials s r)
      else materials s r)"
  by (simp add: setMeshTransparency_def fade_fold_materials)

lemma setMeshTransparency_cache:
  "transparencyCacheRef (setMeshTransparency msh op s) r =
     (if r \<in> set (material_list (mesh_material_of msh)) \<and> transparencyCacheRef s r = None
      then Some (first_seen (materials s r)) else transparencyCacheRef s r)"
  by (simp add: setMeshTransparency_def fade_fold_cache)

text \<open>What the second half of \<open>applyClassHighlight\<close> does, field by field.\<close>

lemma highlight_body_run:
  assumes sub: "e_createSubset e mid ids (Some (highlight_ref s)) ''class-highlight'' = Some mm"
    and disp: "getDisplayMesh mid s = Some target"
  shows "highlightSubsetRef (highlight_body e mid t ids s) =
           Some \<lparr>s_modelID = mid, s_ids = ids, s_customID = ''class-highlight'',
                 s_material = mm\<rparr>
     \<and> selectedClassType (highlight_body e mid t ids s) = Some t
     \<and> highlightMaterialRef (highlight_body e mid t ids s) = Some (highlight_ref s)
     \<and> calls (highlight_body e mid t ids s) =
         calls s @ [CreateSubset mid ids (Some (highlight_ref s)) ''class-highlight'']
     \<and> (r \<in> set (material_list (mesh_material_of target)) \<longrightarrow>
           opacity (materials (highlight_body e mid t ids s) r) = Some 0.2
           \<and> transparent (materials (highlight_body e mid t ids s) r) = Some True
           \<and> depthWrite (materials (highlight_body e mid t ids s) r) = Some False)
     \<and> (r \<in> set (material_list (mesh_material_of target)) \<and> r \<noteq> highlight_ref s \<longrightarrow>
           materials (highlight_body e mid t ids s) r = faded 0.2 (materials s r)
           \<and> transparencyCacheRef (highlight_body e mid t ids s) r =
               (if transparencyCacheRef s r = None then Some (first_seen (materials s r))
                else transparencyCacheRef s r))"
proof -
  let ?s3 = "ensure_highlight_material s"
  let ?r = "highlight_ref s"
  let ?s4 = "?s3\<lparr>materials := (materials ?s3)
                          (?r := (materials ?s3 ?r)
                             \<lparr>clippingPlanes := Some (contextClippingPlanes (viewer ?s3))\<rparr>)\<rparr>"
  let ?s5 = "call (CreateSubset mid ids (Some ?r) ''class-highlight'') ?s4"
  let ?s6 = "?s5\<lparr>highlightSubsetRef :=
                              Some \<lparr>s_modelID = mid, s_ids = ids,
                                    s_customID = ''class-highlight'', s_material = mm\<rparr>\<rparr>"
  have r: "(case highlightMaterialRef ?s3 of None \<Rightarrow> HighlightMaterial | Some r \<Rightarrow> r) = ?r"
    by (simp add: ensure_highlight_material_def highlight_ref_def split: option.splits)
  have d: "getDisplayMesh mid ?s6 = Some target"
    unfolding disp [symmetric]
    by (rule getDisplayMesh_cong) (simp_all add: call_def ensure_highlight_material_def)
  have f: "highlightMaterialRef ?s6 = Some ?r" "calls ?s6 = calls s @ [CreateSubset mid ids (Some ?r) ''class-highlight'']"
    "transparencyCacheRef ?s6 = transparencyCacheRef s"
    "r \<noteq> ?r \<longrightarrow> materials ?s6 r = materials s r"
    by (simp_all add: call_def ensure_highlight_material_def highlight_ref_def
        split: option.splits)
  from setMeshTransparency_shape [of target "0.2" ?s6] obtain c m where
    cm: "setMeshTransparency target 0.2 ?s6 = ?s6\<lparr>transparencyCacheRef := c, materials := m\<rparr>"
    by blast
  have "m r = materials (setMeshTransparency target 0.2 ?s6) r"
    by (subst cm) simp
  then have m: "m r = (if r \<in> set (material_list (mesh_material_of target))
                       then faded 0.2 (materials ?s6 r) else materials ?s6 r)"
    by (simp only: setMeshTransparency_materials)
  have "c r = transparencyCacheRef (setMeshTransparency target 0.2 ?s6) r"
    by (subst cm) simp
  then have c: "c r = (if r \<in> set (material_list (mesh_material_of target))
                          \<and> transparencyCacheRef s r = None
                       then Some (first_seen (materials ?s6 r)) else transparencyCacheRef s r)"
    by (simp only: setMeshTransparency_cache f)
  have "highlight_body e mid t ids s
        = ?s6\<lparr>transparencyCacheRef := c, materials := m, selectedClassType := Some t\<rparr>"
    by (simp only: highlight_body_def Let_def r sub option.case d cm)
  then show ?thesis
    using f m c by (simp add: faded_def)
qed

lemma getTypeIds_shape:
  assumes "getTypeIds e mid t s = Ok ids s0"
  shows "\<exists>tc. s0 = s\<lparr>typeCacheRef := tc\<rparr>"
proof (cases "typeCacheRef s t")
  case None
  with assms have "s0 = s\<lparr>typeCacheRef := (typeCacheRef s)(t \<mapsto> ids)\<rparr>"
    by (auto simp: getTypeIds_def Let_def split: promise.splits)
  then show ?thesis by (rule exI [of _ "(typeCacheRef s)(t \<mapsto> ids)"])
next
  case (Some cached)
  with assms have "s0 = s\<lparr>typeCacheRef := typeCacheRef s\<rparr>"
    by (simp add: getTypeIds_def)
  then show ?thesis by (rule exI [of _ "typeCacheRef s"])
qed

lemma getTypeIds_fresh:
  assumes "typeCacheRef s t = None" "e_getAllItemsOfType e mid t False = Resolved items"
  shows "getTypeIds e mid t s
         = Ok (normalizeIds items) (s\<lparr>typeCacheRef := (typeCacheRef s)(t \<mapsto> normalizeIds items)\<rparr>)"
  using assms by (simp add: getTypeIds_def Let_def)

text \<open>
  Claim C6. With the viewer and a model in place, take a class that is not the selected
  one, whose id lookup answers a non-empty list, for which \<open>createSubset\<close> returns a mesh,
  while a display mesh exists. Selecting its chip stores a highlight subset made of
  exactly the ids of the class, sets every material of the display mesh to opacity 0.2
  (transparent, without depth write) and records the class as selected. Selecting the
  same chip again removes the highlight subset, sets the selected class back to \<open>null\<close>,
  and gives every material of the display mesh that is not the highlight material, that
  has its three fields and that the cache did not know (or knew with its present values)
  the state it had before the first selection.
\<close>

theorem class_chip_highlight:
  assumes "viewerRef s" and "modelID s = Some mid" and "selectedClassType s \<noteq> Some t"
    and "getTypeIds e mid t s = Ok ids s0" and "ids \<noteq> []"
    and "e_createSubset e mid ids (Some (highlight_ref s)) ''class-highlight'' = Some mm"
    and "getDisplayMesh mid s = Some target"
  shows "\<exists>s' s''. handleHighlightClass e t s = Ok () s'
       \<and> handleHighlightClass e' t s' = Ok () s''
       \<and> highlightSubsetRef s' =
            Some \<lparr>s_modelID = mid, s_ids = ids, s_customID = ''class-highlight'',
                  s_material = mm\<rparr>
       \<and> (\<forall>r \<in> set (material_list (mesh_material_of target)).
             opacity (materials s' r) = Some 0.2 \<and> transparent (materials s' r) = Some True
             \<and> depthWrite (materials s' r) = Some False)
       \<and> selectedClassType s' = Some t
       \<and> highlightSubsetRef s'' = None \<and> selectedClassType s'' = None
       \<and> calls s'' = calls s' @ [RemoveSubset mid (Some (highlight_ref s)) ''class-highlight'']
       \<and> (\<forall>r \<in> set (material_list (mesh_material_of target)).
             r \<noteq> highlight_ref s
             \<and> (transparencyCacheRef s r = None
                  \<or> transparencyCacheRef s r = Some (first_seen (materials s r)))
             \<and> opacity (materials s r) \<noteq> None \<and> transparent (materials s r) \<noteq> None
             \<and> depthWrite (materials s r) \<noteq> None
             \<longrightarrow> materials s'' r = materials s r)"
proof -
  from getTypeIds_shape [OF assms(4)] obtain tc where s0: "s0 = s\<lparr>typeCacheRef := tc\<rparr>"
    by blast
  have z: "materials s0 = materials s" "transparencyCacheRef s0 = transparencyCacheRef s"
    "highlightMaterialRef s0 = highlightMaterialRef s" "viewerRef s0 = viewerRef s"
    "modelID s0 = modelID s" "visibleSubsetRef s0 = visibleSubsetRef s" "viewer s0 = viewer s"
    by (simp_all add: s0)
  let ?s2 = "clearClassHighlight mid s0"
  let ?s' = "highlight_body e mid t ids ?s2"
  let ?s'' = "clearClassHighlight mid ?s'"
  have d0: "getDisplayMesh mid s0 = Some target"
    unfolding assms(7) [symmetric] by (rule getDisplayMesh_cong) (simp_all add: z)
  have fr2: "highlight_frame s0 ?s2"
    by (rule frame_clearClassHighlight)
  have d2: "getDisplayMesh mid ?s2 = Some target"
    unfolding d0 [symmetric]
    by (rule getDisplayMesh_cong) (use fr2 in \<open>simp_all add: highlight_frame_def\<close>)
  have h2: "highlight_ref ?s2 = highlight_ref s"
    by (simp add: highlight_ref_def clearClassHighlight_run z)
  have c2: "transparencyCacheRef ?s2 = transparencyCacheRef s"
    by (simp add: clearClassHighlight_run z)
  have m2: "materials ?s2 r =
       (if r \<in> set (material_list (mesh_material_of target))
        then (case transparencyCacheRef s r of
                None \<Rightarrow> materials s r
              | Some c \<Rightarrow> unfaded c (materials s r))
        else materials s r)" for r
    using clearClassHighlight_run [of mid s0 r] by (simp add: d0 z cong: option.case_cong)
  have sub: "e_createSubset e mid ids (Some (highlight_ref ?s2)) ''class-highlight'' = Some mm"
    by (simp only: h2 assms(6))
  note body = highlight_body_run [OF sub d2, where t = t, unfolded h2 c2]
  have fr': "highlight_frame ?s2 ?s'"
    by (rule frame_highlight_body)
  have v': "viewerRef ?s'" "modelID ?s' = Some mid"
    using fr2 fr' assms(1,2) by (simp_all add: highlight_frame_def z)
  have d': "getDisplayMesh mid ?s' = Some target"
    unfolding d2 [symmetric]
    by (rule getDisplayMesh_cong) (use fr' in \<open>simp_all add: highlight_frame_def\<close>)
  have first: "handleHighlightClass e t s = Ok () ?s'"
    using assms(1,2,3,5)
    by (simp add: handleHighlightClass_def applyClassHighlight_eq assms(4))
  have sel': "selectedClassType ?s' = Some t"
    using body by blast
  have second: "handleHighlightClass e' t ?s' = Ok () ?s''"
    using v' sel' by (simp add: handleHighlightClass_def)
  have sub': "highlightSubsetRef ?s' =
            Some \<lparr>s_modelID = mid, s_ids = ids, s_customID = ''class-highlight'',
                  s_material = mm\<rparr>"
    and href': "highlightMaterialRef ?s' = Some (highlight_ref s)"
    using body by blast+
  have faded': "\<forall>r \<in> set (material_list (mesh_material_of target)).
             opacity (materials ?s' r) = Some 0.2 \<and> transparent (materials ?s' r) = Some True
             \<and> depthWrite (materials ?s' r) = Some False"
    using highlight_body_run [OF sub d2, where t = t] by blast
  have cleared: "highlightSubsetRef ?s'' = None" "selectedClassType ?s'' = None"
    "calls ?s'' = calls ?s' @ [RemoveSubset mid (Some (highlight_ref s)) ''class-highlight'']"
    using clearClassHighlight_run [of mid ?s'] by (simp_all add: sub' href')
  have restored: "materials ?s'' r = materials s r"
    if r: "r \<in> set (material_list (mesh_material_of target))" "r \<noteq> highlight_ref s"
      and k: "transparencyCacheRef s r = None
                  \<or> transparencyCacheRef s r = Some (first_seen (materials s r))"
      and w: "opacity (materials s r) \<noteq> None" "transparent (materials s r) \<noteq> None"
             "depthWrite (materials s r) \<noteq> None"
    for r
  proof -
    have a: "materials ?s2 r = materials s r"
      using k w r(1) by (auto simp: m2 unfaded_first_seen)
    from highlight_body_run [OF sub d2, where r = r and t = t] r
    have b: "materials ?s' r = faded 0.2 (materials ?s2 r)"
      "transparencyCacheRef ?s' r =
               (if transparencyCacheRef ?s2 r = None then Some (first_seen (materials ?s2 r))
                else transparencyCacheRef ?s2 r)"
      by (simp_all add: h2)
    have c: "transparencyCacheRef ?s' r = Some (first_seen (materials s r))"
      using k by (auto simp: b a c2)
    have "materials ?s'' r = unfaded (first_seen (materials s r)) (faded 0.2 (materials s r))"
      using clearClassHighlight_run [of mid ?s' r] r(1)
      by (simp add: d' c) (simp add: b a)
    then show ?thesis
      by (simp add: unfaded_first_seen w)
  qed
  from first second sub' faded' sel' cleared restored show ?thesis
    by blast
qed

theorem class_chip_highlight_witness:
  "viewerRef loaded \<and> modelID loaded = Some 0 \<and> selectedClassType loaded = None
   \<and> e_createSubset demo_env 0 [1, 2] (Some (highlight_ref loaded)) ''class-highlight''
        = Some (OneMaterial HighlightMaterial)
   \<and> getDisplayMesh 0 loaded = Some (ModelMesh demo_model)
   \<and> (\<exists>s0. getTypeIds demo_env 0 IFCWALL loaded = Ok [1, 2] s0)
   \<and> (\<exists>s' s''. handleHighlightClass demo_env IFCWALL loaded = Ok () s'
         \<and> handleHighlightClass demo_env IFCWALL s' = Ok () s''
         \<and> highlightSubsetRef s' =
              Some \<lparr>s_modelID = 0, s_ids = [1, 2], s_customID = ''class-highlight'',
                    s_material = OneMaterial HighlightMaterial\<rparr>
         \<and> opacity (materials s' (LibMaterial 0)) = Some 0.2
         \<and> opacity (materials s' (LibMaterial 1)) = Some 0.2
         \<and> selectedClassType s' = Some IFCWALL
         \<and> highlightSubsetRef s'' = None \<and> selectedClassType s'' = None
         \<and> materials s'' (LibMaterial 0) = demo_material
         \<and> materials s'' (LibMaterial 1) = demo_material)"
proof -
  have a: "selectedClassType loaded = None" "typeCacheRef loaded IFCWALL = None"
    "highlight_ref loaded = HighlightMaterial" "transparencyCacheRef loaded = Map.empty"
    "materials loaded = (\<lambda>r. demo_material)"
    by (simp_all add: loaded_def started_def mount_def highlight_ref_def)
  have n: "selectedClassType loaded \<noteq> Some IFCWALL"
    by (simp add: a)
  have i: "e_getAllItemsOfType demo_env 0 IFCWALL False = Resolved [ItemNumber 1, ItemNumber 2]"
    "normalizeIds [ItemNumber 1, ItemNumber 2] = [1, 2]"
    by (simp_all add: demo_env_def demo_items_def normalizeIds_def)
  have g: "getTypeIds demo_env 0 IFCWALL loaded
      = Ok [1, 2] (loaded\<lparr>typeCacheRef := (typeCacheRef loaded)(IFCWALL \<mapsto> [1, 2])\<rparr>)"
    by (rule getTypeIds_fresh [OF a(2) i(1), unfolded i(2)])
  have c: "e_createSubset demo_env 0 [1, 2] (Some (highlight_ref loaded)) ''class-highlight''
        = Some (OneMaterial HighlightMaterial)"
    by (simp add: demo_env_def a)
  have d: "getDisplayMesh 0 loaded = Some (ModelMesh demo_model)"
    by (simp add: getDisplayMesh_def loaded_def started_def mount_def demo_model_def)
  have l: "material_list (mesh_material_of (ModelMesh demo_model))
           = [LibMaterial 0, LibMaterial 1, LibMaterial 0]"
    by (simp add: demo_model_def)
  have w: "opacity demo_material \<noteq> None" "transparent demo_material \<noteq> None"
    "depthWrite demo_material \<noteq> None"
    by (simp_all add: demo_material_def)
  have ne: "[1, 2] \<noteq> ([] :: nat list)" by simp
  from class_chip_highlight [OF loaded_fields(1,2) n g ne c d, of demo_env]
  have "\<exists>s' s''. handleHighlightClass demo_env IFCWALL loaded = Ok () s'
         \<and> handleHighlightClass demo_env IFCWALL s' = Ok () s''
         \<and> highlightSubsetRef s' =
              Some \<lparr>s_modelID = 0, s_ids = [1, 2], s_customID = ''class-highlight'',
                    s_material = OneMaterial HighlightMaterial\<rparr>
         \<and> opacity (materials s' (LibMaterial 0)) = Some 0.2
         \<and> opacity (materials s' (LibMaterial 1)) = Some 0.2
         \<and> selectedClassType s' = Some IFCWALL
         \<and> highlightSubsetRef s'' = None \<and> selectedClassType s'' = None
         \<and> materials s'' (LibMaterial 0) = demo_material
         \<and> materials s'' (LibMaterial 1) = demo_material"
    unfolding l by (simp add: a w) blast
  with a(1) c d g show ?thesis
    by (simp add: loaded_fields)
qed

subsection \<open>Hiding elements and showing them again\<close>

lemma find_set_visible:
  "find (\<lambda>m. m_modelID m = mid) (set_visible mid b ms)
     = map_option (\<lambda>m. m\<lparr>m_visible := b\<rparr>) (find (\<lambda>m. m_modelID m = mid) ms)"
  by (induction ms) auto





lemma hide_original_fields:
  "hiddenIdsRef (hide_original mid s) = hiddenIdsRef s"
  "visibleSubsetRef (hide_original mid s) = visibleSubsetRef s"
  "viewerRef (hide_original mid s) = viewerRef s"
  "modelID (hide_original mid s) = modelID s"
  "find (\<lambda>m. m_modelID m = mid) (ifcModels (viewer (hide_original mid s)))
     = map_option (\<lambda>m. m\<lparr>m_visible := False\<rparr>)
         (find (\<lambda>m. m_modelID m = mid) (ifcModels (viewer s)))"
  by (simp_all add: hide_original_def find_set_visible)









end
